(* ===== verification/Refine_Prelude.thy ===== *)
theory Refine_Prelude
  imports Complex_Main
begin

text \<open>
  Shared vocabulary of the Iso-Seq refine development. The module
  \<open>src/multiqc/modules/isoseq/refine.py\<close> keeps all of its state in Python
  dictionaries: plain \<open>dict\<close>s (\<open>json_data\<close>, \<open>csv_data\<close>, \<open>data\<close>, the
  per-sample record \<open>d\<close>) and \<open>collections.defaultdict\<close>s (the running sums and
  the label counters). A Python dictionary is modelled as an association list
  \<open>('k, 'v) dict\<close> in insertion order, whose keys are distinct
  (\<open>dict_wf\<close>):
  \<^item> \<open>dict_set d k v\<close> is \<open>d[k] = v\<close>: an existing key keeps its position and
    takes the new value, a new key is appended;
  \<^item> \<open>dict_update d e\<close> is \<open>d.update(e)\<close>: the items of \<open>e\<close> are set in order;
  \<^item> \<open>dd_get dflt d k\<close> is reading \<open>d[k]\<close> of a defaultdict whose factory gives
    \<open>dflt\<close> (the read inserts the default, which only matters to a later write
    of the same key, and every read in the module is followed by one);
  \<^item> \<open>counter_incr c k\<close> is \<open>c[k] += 1\<close> on a \<open>defaultdict(int)\<close>.
  The lemmas below characterise each operation by \<open>map_of\<close> (lookup), by its key
  list (insertion order), and by the invariant \<open>dict_wf\<close>; a counter in addition
  has positive counts (\<open>counter_inv\<close>).
\<close>

named_theorems dict_simps "lookup equations of the dictionary model"

type_synonym ('k, 'v) dict = "('k \<times> 'v) list"

fun dict_set :: "('k, 'v) dict \<Rightarrow> 'k \<Rightarrow> 'v \<Rightarrow> ('k, 'v) dict" where
  "dict_set [] k v = [(k, v)]"
| "dict_set ((a, b) # ps) k v =
     (if a = k then (k, v) # ps else (a, b) # dict_set ps k v)"

fun dict_update :: "('k, 'v) dict \<Rightarrow> ('k, 'v) dict \<Rightarrow> ('k, 'v) dict" where
  "dict_update d [] = d"
| "dict_update d ((k, v) # ps) = dict_update (dict_set d k v) ps"

definition dd_get :: "'v \<Rightarrow> ('k, 'v) dict \<Rightarrow> 'k \<Rightarrow> 'v" where
  "dd_get dflt d k = (case map_of d k of None \<Rightarrow> dflt | Some v \<Rightarrow> v)"

definition dict_wf :: "('k, 'v) dict \<Rightarrow> bool" where
  "dict_wf d \<longleftrightarrow> distinct (map fst d)"

definition counter_incr :: "('k, int) dict \<Rightarrow> 'k \<Rightarrow> ('k, int) dict" where
  "counter_incr c k = dict_set c k (dd_get 0 c k + 1)"

definition counter_inv :: "('k, int) dict \<Rightarrow> bool" where
  "counter_inv c \<longleftrightarrow> dict_wf c \<and> (\<forall>(k, n) \<in> set c. 0 < n)"

subsection \<open>Lookup and key order\<close>

lemma map_of_dict_set [simp, dict_simps]:
  "map_of (dict_set d k v) = (map_of d)(k \<mapsto> v)"
  by (induction d k v rule: dict_set.induct) (auto simp: fun_eq_iff)

lemma keys_dict_set:
  "map fst (dict_set d k v) =
     (if k \<in> set (map fst d) then map fst d else map fst d @ [k])"
  by (induction d k v rule: dict_set.induct) auto

lemma set_keys_dict_set [simp]:
  "fst ` set (dict_set d k v) = insert k (fst ` set d)"
  by (induction d k v rule: dict_set.induct) auto

lemma dict_set_not_Nil [simp]: "dict_set d k v \<noteq> []"
  by (cases "(d, k, v)" rule: dict_set.cases) auto

lemma dict_set_wf [intro]: "dict_wf d \<Longrightarrow> dict_wf (dict_set d k v)"
  by (simp add: dict_wf_def keys_dict_set)

lemma dd_get_dict_set [simp, dict_simps]:
  "dd_get dflt (dict_set d k v) k' = (if k' = k then v else dd_get dflt d k')"
  by (simp add: dd_get_def)

lemma dd_get_Nil [simp, dict_simps]: "dd_get dflt [] k = dflt"
  by (simp add: dd_get_def)

lemma dd_get_Cons [simp, dict_simps]:
  "dd_get dflt ((a, b) # ps) k = (if a = k then b else dd_get dflt ps k)"
  by (simp add: dd_get_def)

lemma dict_wf_Nil [simp, intro]: "dict_wf []"
  by (simp add: dict_wf_def)

lemma map_of_dict_update [dict_simps]:
  "dict_wf e \<Longrightarrow> map_of (dict_update d e) = map_of d ++ map_of e"
proof (induction d e rule: dict_update.induct)
  case (1 d)
  then show ?case by simp
next
  case (2 d k v ps)
  then have "dict_wf ps" and "k \<notin> set (map fst ps)"
    by (auto simp: dict_wf_def)
  with "2.IH" show ?case
    by (auto simp: fun_eq_iff map_add_def map_of_eq_None_iff split: option.splits)
qed

lemma keys_dict_update [simp]:
  "fst ` set (dict_update d e) = fst ` set d \<union> fst ` set e"
  by (induction d e rule: dict_update.induct) auto

lemma set_dict_set_cases:
  "p \<in> set (dict_set d k v) \<Longrightarrow> p = (k, v) \<or> p \<in> set d"
  by (induction d k v rule: dict_set.induct) (auto split: if_splits)

lemma dict_set_fresh: "k \<notin> fst ` set d \<Longrightarrow> dict_set d k v = d @ [(k, v)]"
  by (induction d k v rule: dict_set.induct) auto

lemma dict_update_fresh:
  "dict_wf e \<Longrightarrow> fst ` set d \<inter> fst ` set e = {} \<Longrightarrow> dict_update d e = d @ e"
proof (induction e arbitrary: d)
  case Nil
  then show ?case by simp
next
  case (Cons p e)
  obtain k v where p: "p = (k, v)" by fastforce
  with Cons.prems have "k \<notin> fst ` set d" and "dict_wf e"
    and "fst ` set (d @ [(k, v)]) \<inter> fst ` set e = {}"
    by (auto simp: dict_wf_def)
  with p show ?case using Cons.IH by (simp add: dict_set_fresh)
qed

lemma dict_update_wf [intro]: "dict_wf d \<Longrightarrow> dict_wf (dict_update d e)"
  by (induction d e rule: dict_update.induct) auto

subsection \<open>Counters\<close>

lemma dd_get_counter_incr [simp, dict_simps]:
  "dd_get 0 (counter_incr c k) k' = dd_get 0 c k' + (if k' = k then 1 else 0)"
  by (simp add: counter_incr_def)

lemma keys_counter_incr [simp]:
  "fst ` set (counter_incr c k) = insert k (fst ` set c)"
  by (simp add: counter_incr_def)

lemma counter_inv_nonneg: "counter_inv c \<Longrightarrow> 0 \<le> dd_get 0 c k"
proof (cases "map_of c k")
  case (Some n)
  assume "counter_inv c"
  moreover from Some have "(k, n) \<in> set c" by (rule map_of_SomeD)
  ultimately show ?thesis using Some by (auto simp: counter_inv_def dd_get_def)
qed (simp add: dd_get_def)

lemma counter_inv_pos:
  "counter_inv c \<Longrightarrow> k \<in> fst ` set c \<Longrightarrow> 0 < dd_get 0 c k"
proof -
  assume inv: "counter_inv c" and k: "k \<in> fst ` set c"
  then obtain n where kn: "(k, n) \<in> set c" by auto
  with inv have "map_of c k = Some n"
    by (auto simp: counter_inv_def dict_wf_def intro: map_of_is_SomeI)
  with kn inv show ?thesis by (auto simp: counter_inv_def dd_get_def)
qed

lemma sum_dict_set:
  fixes v :: "'v :: ab_group_add"
  shows "dict_wf d \<Longrightarrow>
    sum_list (map snd (dict_set d k v)) = sum_list (map snd d) - dd_get 0 d k + v"
proof (induction d k v rule: dict_set.induct)
  case (1 k v)
  then show ?case by simp
next
  case (2 a b ps k v)
  then have "a \<notin> set (map fst ps)" "dict_wf ps"
    by (auto simp: dict_wf_def)
  with 2 show ?case
    by (auto simp: dd_get_def algebra_simps map_of_eq_None_iff)
qed

lemma counter_incr_inv [intro]: "counter_inv c \<Longrightarrow> counter_inv (counter_incr c k)"
proof -
  assume inv: "counter_inv c"
  have "0 \<le> dd_get 0 c k"
    using inv by (rule counter_inv_nonneg)
  moreover have "set (dict_set c k v) \<subseteq> insert (k, v) (set c)" for v :: int
    by (induction c k v rule: dict_set.induct) auto
  ultimately show ?thesis
    using inv by (fastforce simp: counter_inv_def counter_incr_def)
qed

end
