(* ===== verification/Py_Values.thy ===== *)
theory Py_Values
  imports Refine_Prelude
begin

text \<open>
  The Python values the module reads and writes.
  \<^item> \<open>xfloat\<close>: a Python float as the module uses it, a real number or one of the
    infinities \<open>float("inf")\<close>, \<open>float("-inf")\<close> that start the running minimum
    and maximum. Floating-point rounding is not modelled: arithmetic is exact on
    \<open>real\<close>. \<open>xfloat\<close> is an instance of \<open>linorder\<close>, so \<open>min\<close>, \<open>max\<close>,
    \<open>Min\<close> and \<open>Max\<close> of the library apply to it.
  \<^item> \<open>py_min\<close>, \<open>py_max\<close>: Python's two-argument \<open>min\<close> and \<open>max\<close>, which keep
    the first argument unless the second is strictly smaller (greater).
  \<^item> \<open>cell\<close>: a value of a row produced by \<open>csv.DictReader\<close>: a string, or
    \<open>None\<close> (the reader's \<open>restval\<close>) for a field missing from a short row.
  \<^item> \<open>pyval\<close>: the Python objects that \<open>json.load\<close> returns and that the module
    stores in its result dictionaries.
  \<^item> \<open>error\<close>: the exceptions the module can raise; \<open>py_float\<close> is the call
    \<open>float(x)\<close>. Python's \<open>float\<close> on strings is a library routine and is a
    parameter of the model (\<open>float_parser\<close>); \<open>decimal_float\<close> is the part of it
    that reads plain decimal literals, used to evaluate examples.
\<close>

datatype xfloat = NegInf | Fin real | PosInf

instantiation xfloat :: linorder
begin

fun less_eq_xfloat :: "xfloat \<Rightarrow> xfloat \<Rightarrow> bool" where
  "less_eq_xfloat NegInf y = True"
| "less_eq_xfloat (Fin x) NegInf = False"
| "less_eq_xfloat (Fin x) (Fin y) = (x \<le> y)"
| "less_eq_xfloat (Fin x) PosInf = True"
| "less_eq_xfloat PosInf y = (y = PosInf)"

definition less_xfloat :: "xfloat \<Rightarrow> xfloat \<Rightarrow> bool" where
  "less_xfloat x y \<longleftrightarrow> x \<le> y \<and> \<not> y \<le> x"

instance
proof
  fix x y z :: xfloat
  show "x < y \<longleftrightarrow> x \<le> y \<and> \<not> y \<le> x" by (simp add: less_xfloat_def)
  show "x \<le> x" by (cases x) simp_all
  show "x \<le> y \<Longrightarrow> y \<le> z \<Longrightarrow> x \<le> z" by (cases x; cases y; cases z) auto
  show "x \<le> y \<Longrightarrow> y \<le> x \<Longrightarrow> x = y" by (cases x; cases y) auto
  show "x \<le> y \<or> y \<le> x" by (cases x; cases y) auto
qed

end

definition py_min :: "xfloat \<Rightarrow> xfloat \<Rightarrow> xfloat" where
  "py_min a b = (if b < a then b else a)"

definition py_max :: "xfloat \<Rightarrow> xfloat \<Rightarrow> xfloat" where
  "py_max a b = (if a < b then b else a)"

datatype cell = CStr string | CNone

datatype pyval =
    VNone
  | VBool bool
  | VInt int
  | VFloat xfloat
  | VStr string
  | VList "pyval list"
  | VDict "(pyval \<times> pyval) list"

datatype error =
    KeyError string
  | ValueError string
  | TypeError
  | ZeroDivisionError
  | AttributeError
  | JSONDecodeError

type_synonym float_parser = "string \<Rightarrow> real option"

fun py_float :: "float_parser \<Rightarrow> cell \<Rightarrow> error + real" where
  "py_float flt CNone = Inl TypeError"
| "py_float flt (CStr s) = (case flt s of None \<Rightarrow> Inl (ValueError s) | Some r \<Rightarrow> Inr r)"

text \<open>\<open>x / n\<close> with a float or int \<open>x\<close> and an int \<open>n\<close>: Python raises on \<open>n = 0\<close>.\<close>

definition py_div :: "real \<Rightarrow> int \<Rightarrow> error + real" where
  "py_div x n = (if n = 0 then Inl ZeroDivisionError else Inr (x / of_int n))"

fun cell_val :: "cell \<Rightarrow> pyval" where
  "cell_val (CStr s) = VStr s"
| "cell_val CNone = VNone"

text \<open>A dictionary with string keys, as a Python object.\<close>

definition str_dict :: "(string, pyval) dict \<Rightarrow> (pyval, pyval) dict" where
  "str_dict d = map (\<lambda>(k, v). (VStr k, v)) d"

text \<open>\<open>d.update(e)\<close> on a Python object \<open>d\<close>: only a dictionary has the method.\<close>

fun py_update :: "pyval \<Rightarrow> (pyval, pyval) dict \<Rightarrow> error + pyval" where
  "py_update (VDict d) e = Inr (VDict (dict_update d e))"
| "py_update _ e = Inl AttributeError"

text \<open>A Python object that has the method \<open>update\<close> of a dictionary.\<close>

fun is_dict :: "pyval \<Rightarrow> bool" where
  "is_dict (VDict _) = True"
| "is_dict _ = False"

subsection \<open>Decimal literals\<close>

definition digit_val :: "char \<Rightarrow> nat option" where
  "digit_val c = (let n = of_char c in if 48 \<le> n \<and> n \<le> (57::nat) then Some (n - 48) else None)"

fun digits_val :: "nat \<Rightarrow> string \<Rightarrow> nat option" where
  "digits_val acc [] = Some acc"
| "digits_val acc (c # cs) =
     (case digit_val c of None \<Rightarrow> None | Some d \<Rightarrow> digits_val (10 * acc + d) cs)"

definition unsigned_decimal :: "string \<Rightarrow> real option" where
  "unsigned_decimal s =
     (let ip = takeWhile (\<lambda>c. c \<noteq> CHR ''.'') s;
          rest = dropWhile (\<lambda>c. c \<noteq> CHR ''.'') s
      in if ip = [] \<and> length rest \<le> 1 then None
         else (case rest of
                 [] \<Rightarrow> map_option real (digits_val 0 ip)
               | _ # fp \<Rightarrow>
                   (case (digits_val 0 ip, digits_val 0 fp) of
                      (Some a, Some b) \<Rightarrow> Some (real a + real b / 10 ^ length fp)
                    | _ \<Rightarrow> None)))"

definition decimal_float :: float_parser where
  "decimal_float s =
     (case s of
        c # t \<Rightarrow> (if c = CHR ''-'' then map_option uminus (unsigned_decimal t)
                  else if c = CHR ''+'' then unsigned_decimal t
                  else unsigned_decimal s)
      | [] \<Rightarrow> None)"

subsection \<open>Order and Python's min and max\<close>

lemma less_xfloat_simps [simp]:
  "Fin x < Fin y \<longleftrightarrow> x < y"
  "NegInf < Fin x" "Fin x < PosInf" "NegInf < PosInf"
  "\<not> Fin x < NegInf" "\<not> PosInf < Fin x" "\<not> PosInf < NegInf"
  by (auto simp: less_xfloat_def)

lemma py_min_eq_min [simp]: "py_min a b = min a b"
  by (auto simp: py_min_def min_def)

lemma py_max_eq_max [simp]: "py_max a b = max a b"
  by (auto simp: py_max_def max_def)

lemma min_Fin [simp]: "min (Fin x) (Fin y) = Fin (min x y)"
  by (simp add: min_def)

lemma max_Fin [simp]: "max (Fin x) (Fin y) = Fin (max x y)"
  by (simp add: max_def)

lemma min_PosInf [simp]: "min PosInf x = x"
  by (cases x) (simp_all add: min_def)

lemma max_NegInf [simp]: "max NegInf x = x"
  by (cases x) (simp_all add: max_def)

lemma py_update_Inl_iff:
  "py_update v e = Inl err \<longleftrightarrow> err = AttributeError \<and> \<not> is_dict v"
  by (cases v) auto

lemma py_update_Inr_iff:
  "py_update v e = Inr w \<longleftrightarrow> (\<exists>m. v = VDict m \<and> w = VDict (dict_update m e))"
  by (cases v) auto

lemma map_of_str_dict: "map_of (str_dict d) (VStr k) = map_of d k"
  by (induction d) (auto simp: str_dict_def)

lemma map_of_str_dict_other: "\<forall>k. x \<noteq> VStr k \<Longrightarrow> map_of (str_dict d) x = None"
  by (auto simp: str_dict_def map_of_eq_None_iff)

lemma str_dict_wf: "dict_wf d \<Longrightarrow> dict_wf (str_dict d)"
  by (simp add: dict_wf_def str_dict_def comp_def case_prod_beta distinct_map inj_on_def)

end
