(* ===== verification/Refine_Host.thy ===== *)
theory Refine_Host
  imports Py_Values
begin

text \<open>
  The MultiQC host as the refine module sees it. \<open>RefineMixin\<close> is mixed into a
  MultiQC module object (\<open>self\<close>), whose base class is not part of this
  repository's sources; the calls it makes are modelled here from their use in
  \<open>refine.py\<close> and from the collaborator interface of the specification
  (its section 6):
  \<^item> \<open>found_file\<close>: one dictionary \<open>f\<close> yielded by \<open>self.find_log_files\<close>, with
    the sample name \<open>f["s_name"]\<close>, the file name \<open>f["fn"]\<close> and the decoded
    content of \<open>f["f"]\<close> (the result of \<open>json.load\<close>, or the rows of
    \<open>csv.DictReader\<close>);
  \<^item> \<open>module_state\<close>: the parts of \<open>self\<close> the module changes: the data sources,
    the files written by \<open>write_data_file\<close>, the error log, the general
    statistics columns and the report sections;
  \<^item> one definition per host call, each returning the updated state.
\<close>

record 'a found_file =
  s_name :: string
  fn :: string
  contents :: 'a

record column_header =
  hdr_title :: string
  hdr_description :: string
  hdr_scale :: string
  hdr_format :: "string option"

datatype log_msg =
    FnAsSampleNameUnsupported
  | DifferentSampleSets "string list" "string list"

datatype plot =
  TablePlot "(string, pyval) dict" "(string, column_header) dict" "(string, string) dict"

record report_section =
  sec_name :: string
  sec_anchor :: string
  sec_description :: string
  sec_helptext :: string
  sec_plot :: plot

record module_state =
  data_sources :: "(string \<times> string) list"
  saved_data :: "(string \<times> (string, pyval) dict) list"
  error_log :: "log_msg list"
  general_stats :: "((string, pyval) dict \<times> (string, column_header) dict \<times> string) list"
  sections :: "report_section list"

definition empty_module :: module_state where
  "empty_module =
     \<lparr>data_sources = [], saved_data = [], error_log = [], general_stats = [], sections = []\<rparr>"

text \<open>
  \<open>self.add_data_source(f)\<close>: the call is recorded with the sample name and
  the path of the file. How the base class files the registration is not part
  of the sources and not modelled.
\<close>

definition add_data_source :: "'a found_file \<Rightarrow> module_state \<Rightarrow> module_state" where
  "add_data_source f st = st\<lparr>data_sources := data_sources st @ [(s_name f, fn f)]\<rparr>"

definition write_data_file :: "(string, pyval) dict \<Rightarrow> string \<Rightarrow> module_state \<Rightarrow> module_state" where
  "write_data_file data name st = st\<lparr>saved_data := saved_data st @ [(name, data)]\<rparr>"

definition log_error :: "log_msg \<Rightarrow> module_state \<Rightarrow> module_state" where
  "log_error m st = st\<lparr>error_log := error_log st @ [m]\<rparr>"

definition general_stats_addcols ::
  "(string, pyval) dict \<Rightarrow> (string, column_header) dict \<Rightarrow> string \<Rightarrow> module_state \<Rightarrow> module_state" where
  "general_stats_addcols data headers namespace st =
     st\<lparr>general_stats := general_stats st @ [(data, headers, namespace)]\<rparr>"

definition add_section :: "report_section \<Rightarrow> module_state \<Rightarrow> module_state" where
  "add_section sec st = st\<lparr>sections := sections st @ [sec]\<rparr>"

lemma add_data_source_other_fields [simp]:
  "saved_data (add_data_source f st) = saved_data st"
  "error_log (add_data_source f st) = error_log st"
  by (simp_all add: add_data_source_def)

end
