(* ===== verification/Refine_Aggregate.thy ===== *)
theory Refine_Aggregate
  imports Refine_Host
begin

text \<open>
  The aggregator: lines 26--66 of \<open>refine.py\<close>, the loop over the
  \<open>isoseq/refine-csv\<close> files. For each file the module folds the rows of
  \<open>csv.DictReader\<close> into seven defaultdicts (the record \<open>csv_acc\<close>): per numeric
  column a count, a sum, a sum of squares, a minimum and a maximum, and two
  counters of the \<open>strand\<close> and \<open>primer\<close> labels. If at least one row was seen it
  turns them into the per-sample record \<open>d\<close> (min, mean, std and max of each
  column, then the two counters) and stores it in \<open>csv_data\<close>.
  \<^item> \<open>add_value\<close>, \<open>process_columns\<close>, \<open>process_row\<close>, \<open>process_rows\<close>: the body of
    the row loop (lines 37--49), the column loop inside it, and the row loop;
  \<^item> \<open>column_moments\<close>, \<open>column_stats\<close>, \<open>finalize_csv\<close>: lines 51--64;
  \<^item> \<open>aggregate_csv\<close>: one file, lines 27--64; \<open>load_csv_files\<close>: the file loop.
  Every exception of the source is a value \<open>Inl e\<close>: a missing column
  (\<open>KeyError\<close>), a value \<open>float\<close> rejects (\<open>ValueError\<close>, or \<open>TypeError\<close> for the
  \<open>None\<close> of a short row) and a division by a zero count.

  The reference semantics is a two-pass computation over buffered rows
  (\<open>parse_row\<close>, \<open>reference_record\<close>, \<open>reference_csv\<close>): parse every row, then
  compute the mean as sum over length, the variance as the mean squared
  deviation from the mean, the standard deviation as its square root, the
  minimum and maximum as \<open>Min\<close> and \<open>Max\<close> of the column, and the label counts
  by \<open>count_list\<close> in order of first occurrence.
\<close>

definition refine_columns :: "string list" where
  "refine_columns = [''fivelen'', ''threelen'', ''polyAlen'', ''insertlen'']"

type_synonym row = "(string, cell) dict"

record csv_acc =
  counts :: "(string, int) dict"
  sum_totals :: "(string, real) dict"
  squared_sums :: "(string, real) dict"
  mins :: "(string, xfloat) dict"
  maxs :: "(string, xfloat) dict"
  strand_counts :: "(cell, int) dict"
  primer_counts :: "(cell, int) dict"

definition init_acc :: csv_acc where
  "init_acc =
     \<lparr>counts = [], sum_totals = [], squared_sums = [], mins = [], maxs = [],
      strand_counts = [], primer_counts = []\<rparr>"

text \<open>\<open>row[k]\<close> on the dictionary of one row.\<close>

definition row_get :: "row \<Rightarrow> string \<Rightarrow> error + cell" where
  "row_get row k = (case map_of row k of None \<Rightarrow> Inl (KeyError k) | Some v \<Rightarrow> Inr v)"

text \<open>\<open>value = float(row[column])\<close>, line 40.\<close>

definition row_float :: "float_parser \<Rightarrow> row \<Rightarrow> string \<Rightarrow> error + real" where
  "row_float flt row column =
     (case row_get row column of Inl e \<Rightarrow> Inl e | Inr x \<Rightarrow> py_float flt x)"

text \<open>Lines 41--45: the five running statistics of one column take one value.\<close>

definition add_value :: "csv_acc \<Rightarrow> string \<Rightarrow> real \<Rightarrow> csv_acc" where
  "add_value acc column value =
     acc\<lparr>counts := counter_incr (counts acc) column,
        sum_totals := dict_set (sum_totals acc) column (dd_get 0 (sum_totals acc) column + value),
        squared_sums := dict_set (squared_sums acc) column
                          (dd_get 0 (squared_sums acc) column + value ^ 2),
        mins := dict_set (mins acc) column (py_min (dd_get PosInf (mins acc) column) (Fin value)),
        maxs := dict_set (maxs acc) column (py_max (dd_get NegInf (maxs acc) column) (Fin value))\<rparr>"

fun process_columns :: "float_parser \<Rightarrow> row \<Rightarrow> csv_acc \<Rightarrow> string list \<Rightarrow> error + csv_acc" where
  "process_columns flt row acc [] = Inr acc"
| "process_columns flt row acc (column # cs) =
     (case row_float flt row column of
        Inl e \<Rightarrow> Inl e
      | Inr value \<Rightarrow> process_columns flt row (add_value acc column value) cs)"

text \<open>Lines 39--49: one row.\<close>

definition process_row :: "float_parser \<Rightarrow> csv_acc \<Rightarrow> row \<Rightarrow> error + csv_acc" where
  "process_row flt acc row =
     (case process_columns flt row acc refine_columns of
        Inl e \<Rightarrow> Inl e
      | Inr acc1 \<Rightarrow>
          (case row_get row ''strand'' of
             Inl e \<Rightarrow> Inl e
           | Inr s \<Rightarrow>
               (let acc2 = acc1\<lparr>strand_counts := counter_incr (strand_counts acc1) s\<rparr>
                in (case row_get row ''primer'' of
                      Inl e \<Rightarrow> Inl e
                    | Inr p \<Rightarrow> Inr (acc2\<lparr>primer_counts := counter_incr (primer_counts acc2) p\<rparr>)))))"

fun process_rows :: "float_parser \<Rightarrow> csv_acc \<Rightarrow> row list \<Rightarrow> error + csv_acc" where
  "process_rows flt acc [] = Inr acc"
| "process_rows flt acc (row # rows) =
     (case process_row flt acc row of
        Inl e \<Rightarrow> Inl e
      | Inr acc' \<Rightarrow> process_rows flt acc' rows)"

text \<open>Lines 55--57: mean and standard deviation from count, sum and sum of squares.\<close>

definition column_moments :: "real \<Rightarrow> real \<Rightarrow> int \<Rightarrow> error + real \<times> real" where
  "column_moments s sq n =
     (case py_div s n of
        Inl e \<Rightarrow> Inl e
      | Inr mean \<Rightarrow>
          (case py_div sq n of
             Inl e \<Rightarrow> Inl e
           | Inr sq_mean \<Rightarrow>
               (let variance = sq_mean - mean ^ 2
                in Inr (mean, if variance > 0 then sqrt variance else 0))))"

text \<open>Lines 54--62: the four statistics of each column, in column order.\<close>

fun column_stats :: "csv_acc \<Rightarrow> string list \<Rightarrow> (string, pyval) dict \<Rightarrow> error + (string, pyval) dict" where
  "column_stats acc [] d = Inr d"
| "column_stats acc (column # cs) d =
     (case column_moments (dd_get 0 (sum_totals acc) column) (dd_get 0 (squared_sums acc) column)
             (dd_get 0 (counts acc) column) of
        Inl e \<Rightarrow> Inl e
      | Inr (mean, std_dev) \<Rightarrow>
          column_stats acc cs
            (dict_set (dict_set (dict_set (dict_set d
               (''min_'' @ column) (VFloat (dd_get PosInf (mins acc) column)))
               (''mean_'' @ column) (VFloat (Fin mean)))
               (''std_'' @ column) (VFloat (Fin std_dev)))
               (''max_'' @ column) (VFloat (dd_get NegInf (maxs acc) column))))"

text \<open>\<open>dict(strand_counts)\<close>: a counter as a Python dictionary.\<close>

definition counter_val :: "(cell, int) dict \<Rightarrow> pyval" where
  "counter_val c = VDict (map (\<lambda>(k, n). (cell_val k, VInt n)) c)"

text \<open>Lines 51--64: nothing when no row was counted (\<open>if counts:\<close>).\<close>

definition finalize_csv :: "csv_acc \<Rightarrow> error + (string, pyval) dict option" where
  "finalize_csv acc =
     (if counts acc = [] then Inr None
      else (case column_stats acc refine_columns [] of
              Inl e \<Rightarrow> Inl e
            | Inr d \<Rightarrow>
                Inr (Some (dict_set (dict_set d
                       ''strand_counts'' (counter_val (strand_counts acc)))
                       ''primer_counts'' (counter_val (primer_counts acc))))))"

definition aggregate_csv :: "float_parser \<Rightarrow> row list \<Rightarrow> error + (string, pyval) dict option" where
  "aggregate_csv flt rows =
     (case process_rows flt init_acc rows of
        Inl e \<Rightarrow> Inl e
      | Inr acc \<Rightarrow> finalize_csv acc)"

text \<open>Lines 26 and 65--66: the loop over the CSV files.\<close>

fun load_csv_files ::
  "float_parser \<Rightarrow> (row list) found_file list \<Rightarrow> (string, (string, pyval) dict) dict \<Rightarrow>
   module_state \<Rightarrow> error + (string, (string, pyval) dict) dict \<times> module_state" where
  "load_csv_files flt [] csv_data st = Inr (csv_data, st)"
| "load_csv_files flt (f # fs) csv_data st =
     (case aggregate_csv flt (contents f) of
        Inl e \<Rightarrow> Inl e
      | Inr None \<Rightarrow> load_csv_files flt fs csv_data st
      | Inr (Some d) \<Rightarrow>
          load_csv_files flt fs (dict_set csv_data (s_name f) d)
            (add_data_source f st))"

subsection \<open>The two-pass reference\<close>

fun map_err :: "('a \<Rightarrow> 'e + 'b) \<Rightarrow> 'a list \<Rightarrow> 'e + 'b list" where
  "map_err f [] = Inr []"
| "map_err f (x # xs) =
     (case f x of
        Inl e \<Rightarrow> Inl e
      | Inr y \<Rightarrow> (case map_err f xs of Inl e \<Rightarrow> Inl e | Inr ys \<Rightarrow> Inr (y # ys)))"

type_synonym parsed_row = "real list \<times> cell \<times> cell"

definition parse_row :: "float_parser \<Rightarrow> row \<Rightarrow> error + parsed_row" where
  "parse_row flt row =
     (case map_err (row_float flt row) refine_columns of
        Inl e \<Rightarrow> Inl e
      | Inr vs \<Rightarrow>
          (case row_get row ''strand'' of
             Inl e \<Rightarrow> Inl e
           | Inr s \<Rightarrow>
               (case row_get row ''primer'' of
                  Inl e \<Rightarrow> Inl e
                | Inr p \<Rightarrow> Inr (vs, s, p))))"

definition mean_of :: "real list \<Rightarrow> real" where
  "mean_of xs = sum_list xs / real (length xs)"

definition pvariance :: "real list \<Rightarrow> real" where
  "pvariance xs = sum_list (map (\<lambda>x. (x - mean_of xs) ^ 2) xs) / real (length xs)"

definition stat_entries :: "string \<Rightarrow> real list \<Rightarrow> (string, pyval) dict" where
  "stat_entries column xs =
     [(''min_'' @ column, VFloat (Fin (Min (set xs)))),
      (''mean_'' @ column, VFloat (Fin (mean_of xs))),
      (''std_'' @ column, VFloat (Fin (sqrt (pvariance xs)))),
      (''max_'' @ column, VFloat (Fin (Max (set xs))))]"

text \<open>Label counts in order of first occurrence, as a Python counter keeps them.\<close>

definition count_dict :: "'k list \<Rightarrow> ('k, int) dict" where
  "count_dict ks = map (\<lambda>k. (k, int (count_list ks k))) (rev (remdups (rev ks)))"

definition reference_record :: "parsed_row list \<Rightarrow> (string, pyval) dict" where
  "reference_record prs =
     concat (map (\<lambda>i. stat_entries (refine_columns ! i) (map (\<lambda>pr. fst pr ! i) prs)) [0..<4])
     @ [(''strand_counts'', counter_val (count_dict (map (fst \<circ> snd) prs))),
        (''primer_counts'', counter_val (count_dict (map (snd \<circ> snd) prs)))]"

definition reference_csv :: "float_parser \<Rightarrow> row list \<Rightarrow> error + (string, pyval) dict option" where
  "reference_csv flt rows =
     (case map_err (parse_row flt) rows of
        Inl e \<Rightarrow> Inl e
      | Inr prs \<Rightarrow> Inr (if prs = [] then None else Some (reference_record prs)))"

subsection \<open>Abstractions used in the proofs\<close>

text \<open>
  \<open>add_values\<close> and \<open>add_row\<close> are the effect of one parsed row on the
  accumulator; \<open>col_state\<close> reads the five running statistics of one column,
  \<open>stat_step\<close> advances them by one value and \<open>stats_of\<close> folds a list of values;
  \<open>column_vals i\<close> is the \<open>i\<close>-th column of a list of parsed rows.
\<close>

definition add_values :: "csv_acc \<Rightarrow> string list \<Rightarrow> real list \<Rightarrow> csv_acc" where
  "add_values acc cs vs = fold (\<lambda>(c, v) a. add_value a c v) (zip cs vs) acc"

definition add_row :: "csv_acc \<Rightarrow> parsed_row \<Rightarrow> csv_acc" where
  "add_row acc pr =
     (let a = add_values acc refine_columns (fst pr)
      in a\<lparr>strand_counts := counter_incr (strand_counts a) (fst (snd pr)),
           primer_counts := counter_incr (primer_counts a) (snd (snd pr))\<rparr>)"

type_synonym col_stat = "int \<times> real \<times> real \<times> xfloat \<times> xfloat"

definition col_state :: "csv_acc \<Rightarrow> string \<Rightarrow> col_stat" where
  "col_state acc c =
     (dd_get 0 (counts acc) c, dd_get 0 (sum_totals acc) c, dd_get 0 (squared_sums acc) c,
      dd_get PosInf (mins acc) c, dd_get NegInf (maxs acc) c)"

fun stat_step :: "col_stat \<Rightarrow> real \<Rightarrow> col_stat" where
  "stat_step (n, s, q, mn, mx) v = (n + 1, s + v, q + v ^ 2, min mn (Fin v), max mx (Fin v))"

definition stats_of :: "real list \<Rightarrow> col_stat" where
  "stats_of xs = fold (\<lambda>v st. stat_step st v) xs (0, 0, 0, PosInf, NegInf)"

definition column_vals :: "nat \<Rightarrow> parsed_row list \<Rightarrow> real list" where
  "column_vals i prs = map (\<lambda>pr. fst pr ! i) prs"

subsection \<open>The loops as a fold over parsed rows\<close>

text \<open>
  The first layer of the correctness proof: the row loop fails with the error of
  the first row that does not parse (and, inside the row, of the first column),
  and otherwise is a fold of one pure step \<open>add_row\<close> over the parsed rows.
\<close>

lemma map_err_length:
  "map_err f xs = Inr ys \<Longrightarrow> length ys = length xs"
  by (induction xs arbitrary: ys) (auto split: sum.splits)

lemma map_err_Nil_iff [simp]: "map_err f xs = Inr [] \<longleftrightarrow> xs = []"
  by (cases xs) (auto split: sum.splits)

lemma process_columns_eq:
  "process_columns flt row acc cs =
     (case map_err (row_float flt row) cs of
        Inl e \<Rightarrow> Inl e
      | Inr vs \<Rightarrow> Inr (add_values acc cs vs))"
  by (induction cs arbitrary: acc) (auto simp: add_values_def split: sum.splits)

lemma process_row_eq:
  "process_row flt acc row =
     (case parse_row flt row of Inl e \<Rightarrow> Inl e | Inr pr \<Rightarrow> Inr (add_row acc pr))"
  by (simp add: process_row_def process_columns_eq parse_row_def add_row_def Let_def
           split: sum.splits)

lemma process_rows_eq:
  "process_rows flt acc rows =
     (case map_err (parse_row flt) rows of
        Inl e \<Rightarrow> Inl e
      | Inr prs \<Rightarrow> Inr (fold (\<lambda>pr a. add_row a pr) prs acc))"
  by (induction rows arbitrary: acc) (auto simp: process_row_eq split: sum.splits)

lemma parse_row_length:
  "parse_row flt row = Inr pr \<Longrightarrow> length (fst pr) = length refine_columns"
  by (auto simp: parse_row_def dest: map_err_length split: sum.splits)

lemma map_err_parse_row_lengths:
  "map_err (parse_row flt) rows = Inr prs \<Longrightarrow> \<forall>pr \<in> set prs. length (fst pr) = 4"
proof (induction rows arbitrary: prs)
  case Nil
  then show ?case by simp
next
  case (Cons r rows)
  then obtain pr prs' where pr: "parse_row flt r = Inr pr"
    and prs': "map_err (parse_row flt) rows = Inr prs'" and prs: "prs = pr # prs'"
    by (auto split: sum.splits)
  from pr have "length (fst pr) = 4"
    by (auto simp: refine_columns_def dest: parse_row_length)
  with Cons.IH [OF prs'] prs show ?case by simp
qed

subsection \<open>Refinement: the running statistics of one column\<close>

text \<open>
  The five defaultdicts, read at one column, are a state \<open>col_stat\<close> (count,
  sum, sum of squares, minimum, maximum) that each value advances by
  \<open>stat_step\<close>. \<open>col_state\<close> is the abstraction function; the lemmas show that
  the code's updates of the dictionaries implement \<open>stat_step\<close> on that column and
  leave every other column alone, and give the closed form of the state after a
  list of values.
\<close>

lemma col_state_add_value:
  "col_state (add_value acc c v) c' =
     (if c' = c then stat_step (col_state acc c) v else col_state acc c')"
  by (simp add: col_state_def add_value_def)

lemma add_values_Cons:
  "add_values acc (c # cs) (v # vs) = add_values (add_value acc c v) cs vs"
  by (simp add: add_values_def)

lemma fold_add_value_counters:
  "strand_counts (fold (\<lambda>(c, v) a. add_value a c v) cvs acc) = strand_counts acc \<and>
   primer_counts (fold (\<lambda>(c, v) a. add_value a c v) cvs acc) = primer_counts acc"
  by (induction cvs arbitrary: acc) (auto simp: add_value_def)

lemma add_values_counters [simp]:
  "strand_counts (add_values acc cs vs) = strand_counts acc"
  "primer_counts (add_values acc cs vs) = primer_counts acc"
  by (simp_all add: add_values_def fold_add_value_counters)

lemma col_state_add_values:
  "length vs = length cs \<Longrightarrow> distinct cs \<Longrightarrow>
    col_state (add_values acc cs vs) c =
      (case map_of (zip cs vs) c of
         None \<Rightarrow> col_state acc c
       | Some v \<Rightarrow> stat_step (col_state acc c) v)"
proof (induction vs cs arbitrary: acc rule: list_induct2)
  case Nil
  then show ?case by (simp add: add_values_def)
next
  case (Cons v vs c0 cs)
  then have none: "map_of (zip cs vs) c0 = None" by simp
  show ?case
  proof (cases "c = c0")
    case True
    with Cons none show ?thesis by (simp add: add_values_Cons col_state_add_value)
  next
    case False
    with Cons show ?thesis
      by (auto simp: add_values_Cons col_state_add_value split: option.split
               dest: set_zip_leftD)
  qed
qed

lemma col_state_counters [simp]:
  "col_state (acc\<lparr>strand_counts := x, primer_counts := y\<rparr>) c = col_state acc c"
  by (simp add: col_state_def)

lemma distinct_refine_columns [simp]: "distinct refine_columns"
  by (simp add: refine_columns_def)

lemma length_refine_columns [simp]: "length refine_columns = 4"
  by (simp add: refine_columns_def)

lemma col_state_add_row:
  "i < 4 \<Longrightarrow> length (fst pr) = 4 \<Longrightarrow>
    col_state (add_row acc pr) (refine_columns ! i) =
      stat_step (col_state acc (refine_columns ! i)) (fst pr ! i)"
  by (simp add: add_row_def Let_def col_state_add_values map_of_zip_nth)

lemma col_state_fold_add_row:
  "i < 4 \<Longrightarrow> \<forall>pr \<in> set prs. length (fst pr) = 4 \<Longrightarrow>
    col_state (fold (\<lambda>pr a. add_row a pr) prs acc) (refine_columns ! i) =
      fold (\<lambda>v st. stat_step st v) (column_vals i prs) (col_state acc (refine_columns ! i))"
  by (induction prs arbitrary: acc) (simp_all add: column_vals_def col_state_add_row)

lemma fold_min_Fin:
  "fold (\<lambda>v m. min m (Fin v)) xs m0 =
     (if xs = [] then m0 else min m0 (Fin (Min (set xs))))"
proof (induction xs arbitrary: m0)
  case Nil
  then show ?case by simp
next
  case (Cons x xs)
  show ?case
    using Cons.IH [of "min m0 (Fin x)"] by (cases "xs = []") (simp_all add: min.assoc)
qed

lemma fold_max_Fin:
  "fold (\<lambda>v m. max m (Fin v)) xs m0 =
     (if xs = [] then m0 else max m0 (Fin (Max (set xs))))"
proof (induction xs arbitrary: m0)
  case Nil
  then show ?case by simp
next
  case (Cons x xs)
  show ?case
    using Cons.IH [of "max m0 (Fin x)"] by (cases "xs = []") (simp_all add: max.assoc)
qed

lemma fold_stat_step:
  "fold (\<lambda>v st. stat_step st v) xs (n, s, q, mn, mx) =
     (n + int (length xs), s + sum_list xs, q + sum_list (map (\<lambda>x. x ^ 2) xs),
      fold (\<lambda>v m. min m (Fin v)) xs mn, fold (\<lambda>v m. max m (Fin v)) xs mx)"
  by (induction xs arbitrary: n s q mn mx) (simp_all add: algebra_simps)

lemma stats_of_closed:
  "xs \<noteq> [] \<Longrightarrow>
    stats_of xs =
      (int (length xs), sum_list xs, sum_list (map (\<lambda>x. x ^ 2) xs),
       Fin (Min (set xs)), Fin (Max (set xs)))"
  by (simp add: stats_of_def fold_stat_step fold_min_Fin fold_max_Fin)

lemma col_state_init [simp]: "col_state init_acc c = (0, 0, 0, PosInf, NegInf)"
  by (simp add: col_state_def init_acc_def)

lemma col_state_rows:
  "i < 4 \<Longrightarrow> \<forall>pr \<in> set prs. length (fst pr) = 4 \<Longrightarrow>
    col_state (fold (\<lambda>pr a. add_row a pr) prs init_acc) (refine_columns ! i) =
      stats_of (column_vals i prs)"
  by (simp add: col_state_fold_add_row stats_of_def)

subsection \<open>The label counters\<close>

lemma map_of_map_pair:
  "map_of (map (\<lambda>x. (x, f x)) xs) k = (if k \<in> set xs then Some (f k) else None)"
  by (induction xs) auto

lemma dict_set_map_pair:
  "distinct xs \<Longrightarrow>
    dict_set (map (\<lambda>x. (x, f x)) xs) k v =
      (if k \<in> set xs then map (\<lambda>x. (x, if x = k then v else f x)) xs
       else map (\<lambda>x. (x, f x)) xs @ [(k, v)])"
  by (induction xs) auto

lemma dd_get_count_dict [simp]: "dd_get 0 (count_dict ks) k = int (count_list ks k)"
  unfolding dd_get_def count_dict_def by (simp add: map_of_map_pair count_list_0_iff)

lemma counter_incr_count_dict: "counter_incr (count_dict ks) k = count_dict (ks @ [k])"
proof (cases "k \<in> set ks")
  case True
  then show ?thesis
    unfolding counter_incr_def dd_get_count_dict
    by (simp add: count_dict_def dict_set_map_pair)
next
  case False
  then show ?thesis
    unfolding counter_incr_def dd_get_count_dict
    by (auto simp: count_dict_def dict_set_map_pair count_list_0_iff)
qed

lemma fold_counter_incr_count_dict:
  "fold (\<lambda>k c. counter_incr c k) ks (count_dict ks0) = count_dict (ks0 @ ks)"
  by (induction ks arbitrary: ks0) (simp_all add: counter_incr_count_dict)

lemma count_dict_Nil [simp]: "count_dict [] = []"
  by (simp add: count_dict_def)

lemma counters_fold_add_row:
  "strand_counts (fold (\<lambda>pr a. add_row a pr) prs acc) =
     fold (\<lambda>k c. counter_incr c k) (map (fst \<circ> snd) prs) (strand_counts acc) \<and>
   primer_counts (fold (\<lambda>pr a. add_row a pr) prs acc) =
     fold (\<lambda>k c. counter_incr c k) (map (snd \<circ> snd) prs) (primer_counts acc)"
  by (induction prs arbitrary: acc) (simp_all add: add_row_def Let_def)

lemma counters_rows:
  "strand_counts (fold (\<lambda>pr a. add_row a pr) prs init_acc) = count_dict (map (fst \<circ> snd) prs)"
  "primer_counts (fold (\<lambda>pr a. add_row a pr) prs init_acc) = count_dict (map (snd \<circ> snd) prs)"
  using counters_fold_add_row [of prs init_acc]
    fold_counter_incr_count_dict [of _ "[]"]
  by (simp_all add: init_acc_def)

subsection \<open>Single-pass moments equal the two-pass moments\<close>

lemma sum_sq_dev:
  "sum_list (map (\<lambda>x. (x - m) ^ 2) xs) =
     sum_list (map (\<lambda>x. x ^ 2) xs) - 2 * m * sum_list xs + real (length xs) * m ^ 2"
  by (induction xs) (simp_all add: power2_eq_square algebra_simps)

lemma pvariance_single_pass:
  "xs \<noteq> [] \<Longrightarrow>
    pvariance xs = sum_list (map (\<lambda>x. x ^ 2) xs) / real (length xs) - mean_of xs ^ 2"
proof -
  assume "xs \<noteq> []"
  then have n: "real (length xs) \<noteq> 0" by simp
  show ?thesis
    unfolding pvariance_def sum_sq_dev mean_of_def
    using n by (simp add: field_simps power2_eq_square)
qed

lemma pvariance_nonneg: "0 \<le> pvariance xs"
  unfolding pvariance_def by (auto intro!: divide_nonneg_nonneg sum_list_nonneg)

lemma column_moments_stats:
  "xs \<noteq> [] \<Longrightarrow>
    column_moments (sum_list xs) (sum_list (map (\<lambda>x. x ^ 2) xs)) (int (length xs)) =
      Inr (mean_of xs, sqrt (pvariance xs))"
  using pvariance_single_pass [of xs] pvariance_nonneg [of xs]
  by (auto simp: column_moments_def py_div_def mean_of_def Let_def)

subsection \<open>Finalisation and the equivalence with the reference\<close>

lemma column_stats_step:
  "col_state acc c = stats_of xs \<Longrightarrow> xs \<noteq> [] \<Longrightarrow>
    column_stats acc (c # cs) d = column_stats acc cs (dict_update d (stat_entries c xs))"
  by (simp add: stats_of_closed col_state_def column_moments_stats stat_entries_def)

lemma counts_nonempty:
  "dd_get 0 (counts acc) c \<noteq> 0 \<Longrightarrow> counts acc \<noteq> []"
  by auto

lemma upt_four: "[0..<4] = [0, 1, 2, 3 :: nat]"
  by (simp add: upt_rec)

lemma finalize_rows:
  assumes ne: "prs \<noteq> []" and len: "\<forall>pr \<in> set prs. length (fst pr) = 4"
  shows "finalize_csv (fold (\<lambda>pr a. add_row a pr) prs init_acc) =
           Inr (Some (reference_record prs))"
proof -
  let ?acc = "fold (\<lambda>pr a. add_row a pr) prs init_acc"
  have cs: "col_state ?acc (refine_columns ! i) = stats_of (column_vals i prs)"
    if "i < 4" for i
    using that len by (rule col_state_rows)
  have vne: "column_vals i prs \<noteq> []" for i
    using ne by (simp add: column_vals_def)
  have c0: "col_state ?acc ''fivelen'' = stats_of (column_vals 0 prs)"
    using cs [of 0] by (simp add: refine_columns_def)
  have c1: "col_state ?acc ''threelen'' = stats_of (column_vals 1 prs)"
    using cs [of 1] by (simp add: refine_columns_def)
  have c2: "col_state ?acc ''polyAlen'' = stats_of (column_vals 2 prs)"
    using cs [of 2] by (simp add: refine_columns_def)
  have c3: "col_state ?acc ''insertlen'' = stats_of (column_vals 3 prs)"
    using cs [of 3] by (simp add: refine_columns_def)
  have "counts ?acc \<noteq> []"
    using c0 vne [of 0] by (intro counts_nonempty [where c = "''fivelen''"])
                           (simp add: col_state_def stats_of_closed)
  moreover have "column_stats ?acc refine_columns [] =
      Inr (concat (map (\<lambda>i. stat_entries (refine_columns ! i) (column_vals i prs)) [0..<4]))"
    unfolding refine_columns_def
    by (simp only: column_stats_step [OF c0 vne] column_stats_step [OF c1 vne]
                   column_stats_step [OF c2 vne] column_stats_step [OF c3 vne])
       (simp add: stat_entries_def upt_four)
  ultimately show ?thesis
    by (simp add: finalize_csv_def reference_record_def counters_rows upt_four
                  refine_columns_def stat_entries_def column_vals_def)
qed

lemma aggregate_csv_via_parse:
  "aggregate_csv flt rows =
     (case map_err (parse_row flt) rows of
        Inl e \<Rightarrow> Inl e
      | Inr prs \<Rightarrow> Inr (if prs = [] then None else Some (reference_record prs)))"
proof (cases "map_err (parse_row flt) rows")
  case (Inl e)
  then show ?thesis
    by (simp add: aggregate_csv_def process_rows_eq)
next
  case (Inr prs)
  then have len: "\<forall>pr \<in> set prs. length (fst pr) = 4"
    by (rule map_err_parse_row_lengths)
  show ?thesis
  proof (cases "prs = []")
    case True
    with Inr show ?thesis
      by (simp add: aggregate_csv_def process_rows_eq finalize_csv_def init_acc_def)
  next
    case False
    with Inr len show ?thesis
      by (simp add: aggregate_csv_def process_rows_eq finalize_rows)
  qed
qed

text \<open>
  C1. The single-pass aggregation of one CSV file computes exactly what the
  two-pass reference computes from the buffered rows: the same error when a row
  is malformed, nothing for a file without rows, and otherwise the same record,
  with the minimum, mean, population standard deviation and maximum of each
  numeric column and the label counts, in the same key order.
\<close>

theorem aggregate_csv_eq_reference_csv:
  "aggregate_csv flt rows = reference_csv flt rows"
  by (simp add: aggregate_csv_via_parse reference_csv_def split: sum.split)

end
