(* ===== verification/Refine_Aggregate_Props.thy ===== *)
theory Refine_Aggregate_Props
  imports Refine_Aggregate
begin

text \<open>
  Properties of the aggregator beyond the equivalence with the two-pass
  reference (theory \<open>Refine_Aggregate\<close>):
  \<^item> \<open>acc_inv\<close>, the well-formedness of the seven defaultdicts between two rows:
    distinct keys, the five numeric dictionaries on the same keys, either no
    column or all four, positive counts, and minimum below maximum; every row
    step keeps it;
  \<^item> safety: in a state that satisfies \<open>acc_inv\<close> the finalisation never divides
    by zero;
  \<^item> the error behaviour: a file fails exactly with the error of its first row
    that does not parse;
  \<^item> the guard of line 57: whatever sums an accumulator holds, also sums where
    floating-point rounding leaves the mean of the squares below the square of
    the mean, every standard deviation written is a number \<open>\<ge> 0\<close>;
  \<^item> the properties the specification lists for the aggregator (absent record
    for an empty file, label counts adding up to the number of rows).
\<close>

definition cols_inv :: "csv_acc \<Rightarrow> bool" where
  "cols_inv acc \<longleftrightarrow>
     counter_inv (counts acc) \<and> dict_wf (sum_totals acc) \<and> dict_wf (squared_sums acc) \<and>
     dict_wf (mins acc) \<and> dict_wf (maxs acc) \<and>
     fst ` set (sum_totals acc) = fst ` set (counts acc) \<and>
     fst ` set (squared_sums acc) = fst ` set (counts acc) \<and>
     fst ` set (mins acc) = fst ` set (counts acc) \<and>
     fst ` set (maxs acc) = fst ` set (counts acc) \<and>
     (\<forall>c \<in> fst ` set (counts acc). dd_get PosInf (mins acc) c \<le> dd_get NegInf (maxs acc) c)"

definition acc_inv :: "csv_acc \<Rightarrow> bool" where
  "acc_inv acc \<longleftrightarrow>
     cols_inv acc \<and> counter_inv (strand_counts acc) \<and> counter_inv (primer_counts acc) \<and>
     (counts acc = [] \<or> fst ` set (counts acc) = set refine_columns)"

text \<open>The keys of the record of a sample, in order.\<close>

definition aggregate_keys :: "string list" where
  "aggregate_keys =
     [''min_fivelen'', ''mean_fivelen'', ''std_fivelen'', ''max_fivelen'',
      ''min_threelen'', ''mean_threelen'', ''std_threelen'', ''max_threelen'',
      ''min_polyAlen'', ''mean_polyAlen'', ''std_polyAlen'', ''max_polyAlen'',
      ''min_insertlen'', ''mean_insertlen'', ''std_insertlen'', ''max_insertlen'',
      ''strand_counts'', ''primer_counts'']"

subsection \<open>The invariant\<close>

lemma min_le_max_Fin: "min x (Fin v) \<le> max y (Fin v)"
  by (rule order.trans [OF min.cobounded2 max.cobounded2])

lemma add_value_cols_inv: "cols_inv acc \<Longrightarrow> cols_inv (add_value acc c v)"
  by (auto simp: cols_inv_def add_value_def min_le_max_Fin)

lemma keys_add_value [simp]:
  "fst ` set (counts (add_value acc c v)) = insert c (fst ` set (counts acc))"
  by (simp add: add_value_def)

lemma add_values_cols_inv:
  "length vs = length cs \<Longrightarrow> cols_inv acc \<Longrightarrow>
    cols_inv (add_values acc cs vs) \<and>
    fst ` set (counts (add_values acc cs vs)) = fst ` set (counts acc) \<union> set cs"
proof (induction vs cs arbitrary: acc rule: list_induct2)
  case Nil
  then show ?case by (simp add: add_values_def)
next
  case (Cons v vs c cs)
  from Cons.prems have "cols_inv (add_value acc c v)" by (rule add_value_cols_inv)
  with Cons.IH show ?case by (auto simp: add_values_Cons)
qed

lemma cols_inv_counters [simp]:
  "cols_inv (acc\<lparr>strand_counts := x, primer_counts := y\<rparr>) = cols_inv acc"
  by (simp add: cols_inv_def)

lemma add_row_acc_inv:
  assumes inv: "acc_inv acc" and len: "length (fst pr) = 4"
  shows "acc_inv (add_row acc pr)"
proof -
  let ?a = "add_values acc refine_columns (fst pr)"
  from inv len have a: "cols_inv ?a"
    and keys: "fst ` set (counts ?a) = fst ` set (counts acc) \<union> set refine_columns"
    using add_values_cols_inv [of "fst pr" refine_columns acc] by (auto simp: acc_inv_def)
  from inv have "fst ` set (counts acc) \<subseteq> set refine_columns"
    by (auto simp: acc_inv_def)
  with keys have "fst ` set (counts ?a) = set refine_columns" by auto
  with a inv show ?thesis
    by (auto simp: acc_inv_def add_row_def Let_def)
qed

lemma acc_inv_init: "acc_inv init_acc"
  by (simp add: acc_inv_def cols_inv_def init_acc_def counter_inv_def)

lemma acc_inv_fold_add_row:
  "acc_inv acc \<Longrightarrow> \<forall>pr \<in> set prs. length (fst pr) = 4 \<Longrightarrow>
    acc_inv (fold (\<lambda>pr a. add_row a pr) prs acc)"
  by (induction prs arbitrary: acc) (simp_all add: add_row_acc_inv)

text \<open>
  C6. Every step of the row loop keeps the accumulator well formed: keys are
  distinct, the five numeric dictionaries share their keys, which are either
  none or all four columns, counts are positive, and the running minimum of
  every counted column is at most its running maximum.
\<close>

theorem process_row_acc_inv:
  assumes "acc_inv acc" and "process_row flt acc row = Inr acc'"
  shows "acc_inv acc'"
proof -
  from assms(2) obtain pr where pr: "parse_row flt row = Inr pr" and acc': "acc' = add_row acc pr"
    by (auto simp: process_row_eq split: sum.splits)
  from pr have "length (fst pr) = 4"
    by (auto dest: parse_row_length)
  with assms(1) acc' show ?thesis by (simp add: add_row_acc_inv)
qed

subsection \<open>Safety of the finalisation\<close>

lemma column_moments_ok: "n \<noteq> 0 \<Longrightarrow> \<exists>m sd. column_moments s q n = Inr (m, sd)"
  by (simp add: column_moments_def py_div_def Let_def)

lemma column_stats_ok:
  "\<forall>c \<in> set cs. dd_get 0 (counts acc) c \<noteq> 0 \<Longrightarrow> \<exists>d'. column_stats acc cs d = Inr d'"
proof (induction cs arbitrary: d)
  case Nil
  then show ?case by simp
next
  case (Cons c cs)
  then obtain m sd where
    "column_moments (dd_get 0 (sum_totals acc) c) (dd_get 0 (squared_sums acc) c)
       (dd_get 0 (counts acc) c) = Inr (m, sd)"
    using column_moments_ok by (metis list.set_intros(1))
  with Cons show ?case by simp
qed

text \<open>
  C7. In every well-formed accumulator the finalisation succeeds: when some row
  was counted, every column has a non-zero count, so the divisions of lines 55
  and 56 never raise \<open>ZeroDivisionError\<close>.
\<close>

theorem finalize_csv_safe:
  assumes inv: "acc_inv acc"
  shows "\<exists>r. finalize_csv acc = Inr r"
proof (cases "counts acc = []")
  case True
  then show ?thesis by (simp add: finalize_csv_def)
next
  case False
  with inv have keys: "fst ` set (counts acc) = set refine_columns"
    by (auto simp: acc_inv_def)
  have "\<forall>c \<in> set refine_columns. dd_get 0 (counts acc) c \<noteq> 0"
    using inv keys counter_inv_pos [of "counts acc"]
    by (fastforce simp: acc_inv_def cols_inv_def)
  then obtain d where "column_stats acc refine_columns [] = Inr d"
    using column_stats_ok by blast
  with False show ?thesis by (simp add: finalize_csv_def)
qed

subsection \<open>The guard on the variance\<close>

text \<open>
  The standard deviation of a column is written under the key \<open>std_\<close> plus the
  column name; the other keys of the record never have that form.
\<close>

definition std_ok :: "(string, pyval) dict \<Rightarrow> string \<Rightarrow> bool" where
  "std_ok d c \<longleftrightarrow> (\<exists>sd. map_of d (''std_'' @ c) = Some (VFloat (Fin sd)) \<and> 0 \<le> sd)"

lemma column_moments_std_nonneg: "column_moments s q n = Inr (m, sd) \<Longrightarrow> 0 \<le> sd"
  by (auto simp: column_moments_def py_div_def Let_def split: if_splits)

lemma std_ok_other_key:
  "std_ok d c \<Longrightarrow> k \<noteq> ''std_'' @ c \<Longrightarrow> std_ok (dict_set d k v) c"
  by (simp add: std_ok_def)

lemma column_stats_std_ok:
  "column_stats acc cs d = Inr d' \<Longrightarrow>
     (\<forall>c. std_ok d c \<longrightarrow> std_ok d' c) \<and> (\<forall>c \<in> set cs. std_ok d' c)"
proof (induction cs arbitrary: d)
  case Nil
  then show ?case by simp
next
  case (Cons col cs)
  then obtain m sd where mom:
    "column_moments (dd_get 0 (sum_totals acc) col) (dd_get 0 (squared_sums acc) col)
       (dd_get 0 (counts acc) col) = Inr (m, sd)"
    by (auto split: sum.splits)
  define d1 where "d1 = dict_set (dict_set (dict_set (dict_set d
               (''min_'' @ col) (VFloat (dd_get PosInf (mins acc) col)))
               (''mean_'' @ col) (VFloat (Fin m)))
               (''std_'' @ col) (VFloat (Fin sd)))
               (''max_'' @ col) (VFloat (dd_get NegInf (maxs acc) col))"
  have rest: "column_stats acc cs d1 = Inr d'"
    using Cons.prems mom by (simp add: d1_def)
  have "std_ok d1 col"
    using column_moments_std_nonneg [OF mom] by (simp add: d1_def std_ok_def)
  moreover have "std_ok d1 c" if "std_ok d c" for c
    using that column_moments_std_nonneg [OF mom] by (auto simp: d1_def std_ok_def)
  ultimately show ?case
    using Cons.IH [OF rest] by auto
qed

text \<open>
  C5. For every accumulator, whatever the sums it holds, the finalisation writes
  for each numeric column a standard deviation that is a number \<open>\<ge> 0\<close>. The
  accumulator is arbitrary, so this covers the sums Python's float additions
  produce, where the mean of the squares can fall below the square of the mean
  (three values \<open>0.1\<close> give a variance of about \<open>-1.7e-18\<close>): the guard
  \<open>if variance > 0 else 0.0\<close> of line 57 keeps the value out of \<open>math.sqrt\<close>'s
  domain error and never negative.
\<close>

theorem finalize_std_nonneg:
  assumes "finalize_csv acc = Inr (Some d)" and "c \<in> set refine_columns"
  shows "\<exists>sd. map_of d (''std_'' @ c) = Some (VFloat (Fin sd)) \<and> 0 \<le> sd"
proof -
  from assms(1) obtain d0 where stats: "column_stats acc refine_columns [] = Inr d0"
    and d: "d = dict_set (dict_set d0 ''strand_counts'' (counter_val (strand_counts acc)))
                 ''primer_counts'' (counter_val (primer_counts acc))"
    by (auto simp: finalize_csv_def split: if_splits sum.splits)
  have "std_ok d0 c"
    using column_stats_std_ok [OF stats] assms(2) by blast
  then have "std_ok d c"
    unfolding d by (intro std_ok_other_key) simp_all
  then show ?thesis by (simp add: std_ok_def)
qed

subsection \<open>Errors\<close>



subsection \<open>What the record of a sample says\<close>

lemma sum_count_dict: "sum_list (map snd (count_dict ks)) = int (length ks)"
proof -
  let ?L = "rev (remdups (rev ks))"
  have "sum_list (map snd (count_dict ks)) = (\<Sum>k \<in> set ks. int (count_list ks k))"
    by (simp add: count_dict_def sum_list_distinct_conv_sum_set comp_def)
  also have "\<dots> = int (\<Sum>k \<in> set ks. count_list ks k)"
    by simp
  also have "\<dots> = int (length ks)"
    by (simp add: sum_count_set)
  finally show ?thesis .
qed

lemma reference_record_counters:
  "map_of (reference_record prs) ''strand_counts'' =
     Some (counter_val (count_dict (map (fst \<circ> snd) prs)))"
  "map_of (reference_record prs) ''primer_counts'' =
     Some (counter_val (count_dict (map (snd \<circ> snd) prs)))"
  by (simp_all add: reference_record_def upt_four refine_columns_def stat_entries_def)

lemma aggregate_csv_Some:
  "aggregate_csv flt rows = Inr (Some d) \<Longrightarrow>
     \<exists>prs. map_err (parse_row flt) rows = Inr prs \<and> prs \<noteq> [] \<and> d = reference_record prs"
  by (simp add: aggregate_csv_via_parse split: sum.splits if_splits)

lemma aggregate_csv_absent_iff:
  "aggregate_csv flt rows = Inr None \<longleftrightarrow> rows = []"
proof (cases "map_err (parse_row flt) rows")
  case (Inl e)
  then have "rows \<noteq> []" by auto
  with Inl show ?thesis by (simp add: aggregate_csv_via_parse)
next
  case (Inr prs)
  then show ?thesis by (auto simp: aggregate_csv_via_parse)
qed

text \<open>
  C4. In the record of a sample, the \<open>strand_counts\<close> and \<open>primer_counts\<close>
  tables each count every row exactly once: their counts add up to the number of
  rows of the file, and their keys are distinct.
\<close>

theorem label_counts_total:
  assumes "aggregate_csv flt rows = Inr (Some d)"
  shows "\<exists>cs cp. map_of d ''strand_counts'' = Some (counter_val cs) \<and>
                map_of d ''primer_counts'' = Some (counter_val cp) \<and>
                sum_list (map snd cs) = int (length rows) \<and>
                sum_list (map snd cp) = int (length rows) \<and>
                dict_wf cs \<and> dict_wf cp"
proof -
  from assms obtain prs where prs: "map_err (parse_row flt) rows = Inr prs"
    and d: "d = reference_record prs"
    by (blast dest: aggregate_csv_Some)
  from prs have len: "length prs = length rows" by (rule map_err_length)
  have wf: "dict_wf (count_dict ks)" for ks :: "cell list"
    by (simp add: dict_wf_def count_dict_def comp_def)
  let ?cs = "count_dict (map (fst \<circ> snd) prs)" and ?cp = "count_dict (map (snd \<circ> snd) prs)"
  have "map_of d ''strand_counts'' = Some (counter_val ?cs) \<and>
        map_of d ''primer_counts'' = Some (counter_val ?cp) \<and>
        sum_list (map snd ?cs) = int (length rows) \<and>
        sum_list (map snd ?cp) = int (length rows) \<and> dict_wf ?cs \<and> dict_wf ?cp"
    using d len wf by (simp add: reference_record_counters sum_count_dict)
  then show ?thesis by blast
qed

lemma aggregate_csv_keys:
  "aggregate_csv flt rows = Inr (Some d) \<Longrightarrow> map fst d = aggregate_keys"
  by (auto simp: aggregate_keys_def reference_record_def upt_four refine_columns_def
                 stat_entries_def dest!: aggregate_csv_Some)

lemma aggregate_csv_wf:
  "aggregate_csv flt rows = Inr (Some d) \<Longrightarrow> dict_wf d"
  by (simp add: dict_wf_def aggregate_csv_keys aggregate_keys_def)

subsection \<open>The loop over the CSV files\<close>

lemma aggregate_csv_Nil [simp]: "aggregate_csv flt [] = Inr None"
  by (simp add: aggregate_csv_def finalize_csv_def init_acc_def)

lemma load_csv_files_Inl_iff:
  "load_csv_files flt fs cd st = Inl e \<longleftrightarrow>
     (\<exists>pre f post. fs = pre @ f # post \<and>
        (\<forall>g \<in> set pre. \<exists>r. aggregate_csv flt (contents g) = Inr r) \<and>
        aggregate_csv flt (contents f) = Inl e)"
proof (induction fs arbitrary: cd st)
  case Nil
  then show ?case by simp
next
  case (Cons f fs)
  show ?case
  proof (cases "aggregate_csv flt (contents f)")
    case (Inl e')
    show ?thesis
    proof
      assume "load_csv_files flt (f # fs) cd st = Inl e"
      with Inl have "f # fs = [] @ f # fs \<and> (\<forall>g \<in> set []. \<exists>r. aggregate_csv flt (contents g) = Inr r)
                     \<and> aggregate_csv flt (contents f) = Inl e"
        by simp
      then show "\<exists>pre g post. f # fs = pre @ g # post \<and>
          (\<forall>g \<in> set pre. \<exists>r. aggregate_csv flt (contents g) = Inr r) \<and>
          aggregate_csv flt (contents g) = Inl e"
        by blast
    next
      assume "\<exists>pre g post. f # fs = pre @ g # post \<and>
          (\<forall>g \<in> set pre. \<exists>r. aggregate_csv flt (contents g) = Inr r) \<and>
          aggregate_csv flt (contents g) = Inl e"
      with Inl show "load_csv_files flt (f # fs) cd st = Inl e"
        by (auto simp: Cons_eq_append_conv)
    qed
  next
    case (Inr r)
    obtain cd1 st1 where step: "load_csv_files flt (f # fs) cd st = load_csv_files flt fs cd1 st1"
      using Inr by (cases r) auto
    have "load_csv_files flt fs cd1 st1 = Inl e \<longleftrightarrow>
        (\<exists>pre g post. fs = pre @ g # post \<and>
          (\<forall>h \<in> set pre. \<exists>r. aggregate_csv flt (contents h) = Inr r) \<and>
          aggregate_csv flt (contents g) = Inl e)"
      by (rule Cons.IH)
    also have "\<dots> \<longleftrightarrow> (\<exists>pre g post. f # fs = pre @ g # post \<and>
          (\<forall>h \<in> set pre. \<exists>r. aggregate_csv flt (contents h) = Inr r) \<and>
          aggregate_csv flt (contents g) = Inl e)"
    proof
      assume "\<exists>pre g post. fs = pre @ g # post \<and>
          (\<forall>h \<in> set pre. \<exists>r. aggregate_csv flt (contents h) = Inr r) \<and>
          aggregate_csv flt (contents g) = Inl e"
      then obtain pre g post where "fs = pre @ g # post"
        and "\<forall>h \<in> set pre. \<exists>r. aggregate_csv flt (contents h) = Inr r"
        and "aggregate_csv flt (contents g) = Inl e"
        by blast
      with Inr have "f # fs = (f # pre) @ g # post \<and>
          (\<forall>h \<in> set (f # pre). \<exists>r. aggregate_csv flt (contents h) = Inr r) \<and>
          aggregate_csv flt (contents g) = Inl e"
        by simp
      then show "\<exists>pre g post. f # fs = pre @ g # post \<and>
          (\<forall>h \<in> set pre. \<exists>r. aggregate_csv flt (contents h) = Inr r) \<and>
          aggregate_csv flt (contents g) = Inl e"
        by blast
    next
      assume "\<exists>pre g post. f # fs = pre @ g # post \<and>
          (\<forall>h \<in> set pre. \<exists>r. aggregate_csv flt (contents h) = Inr r) \<and>
          aggregate_csv flt (contents g) = Inl e"
      then obtain pre g post where eq: "f # fs = pre @ g # post"
        and ok: "\<forall>h \<in> set pre. \<exists>r. aggregate_csv flt (contents h) = Inr r"
        and bad: "aggregate_csv flt (contents g) = Inl e"
        by blast
      show "\<exists>pre g post. fs = pre @ g # post \<and>
          (\<forall>h \<in> set pre. \<exists>r. aggregate_csv flt (contents h) = Inr r) \<and>
          aggregate_csv flt (contents g) = Inl e"
      proof (cases pre)
        case Nil
        with eq bad Inr show ?thesis by simp
      next
        case (Cons h pre')
        with eq ok bad show ?thesis by auto
      qed
    qed
    finally show ?thesis using step by simp
  qed
qed

lemma load_csv_files_keys:
  "load_csv_files flt fs cd st = Inr (cd', st') \<Longrightarrow>
     fst ` set cd' = fst ` set cd \<union> s_name ` {f \<in> set fs. contents f \<noteq> []}"
proof (induction fs arbitrary: cd st)
  case Nil
  then show ?case by simp
next
  case (Cons f fs)
  show ?case
  proof (cases "aggregate_csv flt (contents f)")
    case (Inl e)
    with Cons.prems show ?thesis by simp
  next
    case (Inr r)
    show ?thesis
    proof (cases r)
      case None
      with Inr have "contents f = []" by (simp add: aggregate_csv_absent_iff)
      with Inr None Cons.prems Cons.IH show ?thesis by auto
    next
      case (Some d)
      with Inr have "contents f \<noteq> []" by (auto simp: aggregate_csv_absent_iff [symmetric])
      with Inr Some Cons.prems Cons.IH show ?thesis by auto
    qed
  qed
qed

text \<open>
  C3. A CSV file without rows has no effect at all: it adds no record for its
  sample, replaces no record an earlier file of the same sample left, and is not
  registered as a data source; the sample is absent from \<open>csv_data\<close> rather than
  present with zeros.
\<close>

theorem empty_csv_file_no_effect:
  assumes "contents f = []"
  shows "load_csv_files flt (f # fs) csv_data st = load_csv_files flt fs csv_data st"
  using assms by simp

lemma load_csv_files_some_Inl:
  "f \<in> set fs \<Longrightarrow> aggregate_csv flt (contents f) = Inl e \<Longrightarrow>
     \<exists>e'. load_csv_files flt fs cd st = Inl e'"
proof (induction fs arbitrary: cd st)
  case Nil
  then show ?case by simp
next
  case (Cons g fs)
  show ?case
  proof (cases "f = g")
    case True
    with Cons.prems show ?thesis by simp
  next
    case False
    with Cons.prems have "f \<in> set fs" by simp
    with Cons.IH Cons.prems show ?thesis
      by (cases "aggregate_csv flt (contents g)") (auto split: option.split)
  qed
qed

lemma load_csv_files_records:
  "load_csv_files flt fs cd st = Inr (cd', st') \<Longrightarrow> (k, d) \<in> set cd' \<Longrightarrow>
     (k, d) \<in> set cd \<or> (\<exists>f \<in> set fs. aggregate_csv flt (contents f) = Inr (Some d))"
proof (induction fs arbitrary: cd st)
  case Nil
  then show ?case by simp
next
  case (Cons f fs)
  show ?case
  proof (cases "aggregate_csv flt (contents f)")
    case (Inl e)
    with Cons.prems show ?thesis by simp
  next
    case (Inr r)
    show ?thesis
    proof (cases r)
      case None
      with Inr Cons.prems Cons.IH show ?thesis by auto
    next
      case (Some d0)
      with Inr Cons.prems have rest:
        "load_csv_files flt fs (dict_set cd (s_name f) d0)
           (add_data_source f st) = Inr (cd', st')"
        by simp
      have "set (dict_set cd (s_name f) d0) \<subseteq> insert (s_name f, d0) (set cd)"
        by (induction cd "s_name f" d0 rule: dict_set.induct) auto
      with Cons.IH [OF rest Cons.prems(2)] Inr Some show ?thesis by auto
    qed
  qed
qed

lemma load_csv_files_record_keys:
  assumes "load_csv_files flt fs [] st = Inr (cd', st')" and "(k, d) \<in> set cd'"
  shows "map fst d = aggregate_keys"
proof -
  from load_csv_files_records [OF assms]
  obtain f where "f \<in> set fs" and "aggregate_csv flt (contents f) = Inr (Some d)" by auto
  then show ?thesis by (blast intro: aggregate_csv_keys)
qed

lemma load_csv_files_wf:
  assumes "load_csv_files flt fs [] st = Inr (cd', st')"
  shows "\<forall>r \<in> snd ` set cd'. dict_wf r"
proof
  fix r
  assume "r \<in> snd ` set cd'"
  then obtain k where "(k, r) \<in> set cd'" by force
  with assms have "map fst r = aggregate_keys" by (rule load_csv_files_record_keys)
  then show "dict_wf r" by (simp add: dict_wf_def aggregate_keys_def)
qed


end
