(* ===== verification/Refine_Summary.thy ===== *)
theory Refine_Summary
  imports Refine_Host
begin

text \<open>
  The summary loader: lines 22--24 of \<open>refine.py\<close>, the loop over the
  \<open>isoseq/refine-json\<close> files. Each file is decoded by \<open>json.load\<close> and stored
  under its sample name in \<open>json_data\<close>, a later file of the same sample
  replacing an earlier one, and registered as a data source. The decoded value is
  stored as it is: nothing checks that it is a JSON object. A file that does not
  decode raises \<open>JSONDecodeError\<close>, which ends the whole module run. The content
  of a file is modelled as the result of \<open>json.load\<close>: \<open>Some v\<close>, or \<open>None\<close> for a
  file it rejects.
\<close>

fun load_json_files ::
  "(pyval option) found_file list \<Rightarrow> (string, pyval) dict \<Rightarrow> module_state \<Rightarrow>
   error + (string, pyval) dict \<times> module_state" where
  "load_json_files [] json_data st = Inr (json_data, st)"
| "load_json_files (f # fs) json_data st =
     (case contents f of
        None \<Rightarrow> Inl JSONDecodeError
      | Some v \<Rightarrow>
          load_json_files fs (dict_set json_data (s_name f) v)
            (add_data_source f st))"

text \<open>The value a list of decoded files leaves for a sample: that of its last file.\<close>

definition last_json :: "(pyval option) found_file list \<Rightarrow> string \<Rightarrow> pyval option" where
  "last_json fs k = (case filter (\<lambda>f. s_name f = k) (rev fs) of [] \<Rightarrow> None | f # _ \<Rightarrow> contents f)"

lemma load_json_files_Inl_iff:
  "load_json_files fs jd st = Inl e \<longleftrightarrow> e = JSONDecodeError \<and> (\<exists>f \<in> set fs. contents f = None)"
  by (induction fs arbitrary: jd st) (auto split: option.split)

lemma load_json_files_Inr:
  "(\<forall>f \<in> set fs. contents f \<noteq> None) \<Longrightarrow> \<exists>r. load_json_files fs jd st = Inr r"
  by (induction fs arbitrary: jd st) auto

lemma load_json_files_contents:
  "load_json_files fs jd st = Inr r \<Longrightarrow> \<forall>f \<in> set fs. contents f \<noteq> None"
  by (induction fs arbitrary: jd st) (auto split: option.splits)

lemma load_json_files_keys:
  "load_json_files fs jd st = Inr (jd', st') \<Longrightarrow>
     fst ` set jd' = fst ` set jd \<union> s_name ` set fs"
  by (induction fs arbitrary: jd st) (auto split: option.splits)

lemma load_json_files_wf:
  "load_json_files fs jd st = Inr (jd', st') \<Longrightarrow> dict_wf jd \<Longrightarrow> dict_wf jd'"
  by (induction fs arbitrary: jd st) (auto split: option.splits)

lemma load_json_files_lookup:
  "load_json_files fs jd st = Inr (jd', st') \<Longrightarrow>
     map_of jd' k = (case last_json fs k of None \<Rightarrow> map_of jd k | Some v \<Rightarrow> Some v)"
proof (induction fs arbitrary: jd st)
  case Nil
  then show ?case by (simp add: last_json_def)
next
  case (Cons f fs)
  then obtain v where v: "contents f = Some v"
    and rest: "load_json_files fs (dict_set jd (s_name f) v)
                 (add_data_source f st) = Inr (jd', st')"
    by (auto split: option.splits)
  have all: "\<forall>g \<in> set fs. contents g \<noteq> None"
    using rest by (rule load_json_files_contents)
  show ?case
  proof (cases "filter (\<lambda>g. s_name g = k) (rev fs)")
    case Nil
    then show ?thesis using Cons.IH [OF rest] v by (simp add: last_json_def)
  next
    case (Cons g gs)
    then have "g \<in> set (filter (\<lambda>g. s_name g = k) (rev fs))" by simp
    then have "g \<in> set fs" by simp
    with all obtain w where "contents g = Some w" by auto
    with Cons show ?thesis using Cons.IH [OF rest] by (simp add: last_json_def)
  qed
qed

lemma load_json_files_obtain:
  assumes "\<forall>f \<in> set jfs. contents f \<noteq> None"
  obtains jd st1 where "load_json_files jfs [] st = Inr (jd, st1)"
  using load_json_files_Inr [OF assms, of "[]" st] by (metis surj_pair)

end
