(* ===== verification/Refine_Reconcile.thy ===== *)
theory Refine_Reconcile
  imports Refine_Host
begin

text \<open>
  The reconciler: lines 68--83 of \<open>refine.py\<close>.
  \<^item> \<open>sample_sets_check\<close> (lines 68--79): with \<open>config.use_filename_as_sample_name\<close>
    set, an error is logged that the module does not support it; otherwise an
    error is logged when the sample names of the JSON and of the CSV files
    differ as sets. Either way the module goes on.
  \<^item> \<open>sample_record\<close>, \<open>merge_samples\<close> (lines 80--83): for every sample of the
    union of both key sets, the JSON value of the sample (or \<open>{}\<close>) updated
    with the CSV record of the sample (or \<open>{}\<close>). \<open>.update\<close> on a JSON value
    that is not an object raises \<open>AttributeError\<close>, which ends the run.
  The loop runs over a Python set, whose order depends on string hashing; the
  model runs over \<open>sample_union\<close>, a list of the names of both sources without
  repetitions, and the lemmas show that the outcome does not depend on the order.
\<close>

definition sample_sets_check ::
  "bool \<Rightarrow> (string, pyval) dict \<Rightarrow> (string, (string, pyval) dict) dict \<Rightarrow>
   module_state \<Rightarrow> module_state" where
  "sample_sets_check fn_as_s_name json_data csv_data st =
     (if fn_as_s_name then log_error FnAsSampleNameUnsupported st
      else if fst ` set json_data \<noteq> fst ` set csv_data
      then log_error (DifferentSampleSets (map fst json_data) (map fst csv_data)) st
      else st)"

text \<open>Lines 82--83 for one sample.\<close>

definition sample_record ::
  "(string, pyval) dict \<Rightarrow> (string, (string, pyval) dict) dict \<Rightarrow> string \<Rightarrow> error + pyval" where
  "sample_record json_data csv_data s =
     py_update (case map_of json_data s of Some v \<Rightarrow> v | None \<Rightarrow> VDict [])
       (str_dict (case map_of csv_data s of Some d \<Rightarrow> d | None \<Rightarrow> []))"

fun merge_samples ::
  "(string, pyval) dict \<Rightarrow> (string, (string, pyval) dict) dict \<Rightarrow> string list \<Rightarrow>
   (string, pyval) dict \<Rightarrow> error + (string, pyval) dict" where
  "merge_samples json_data csv_data [] data = Inr data"
| "merge_samples json_data csv_data (s # ss) data =
     (case sample_record json_data csv_data s of
        Inl e \<Rightarrow> Inl e
      | Inr v \<Rightarrow> merge_samples json_data csv_data ss (dict_set data s v))"

definition sample_union :: "(string, 'a) dict \<Rightarrow> (string, 'b) dict \<Rightarrow> string list" where
  "sample_union json_data csv_data = remdups (map fst json_data @ map fst csv_data)"

subsection \<open>One sample\<close>

lemma sample_record_Inl_iff:
  "sample_record jd cd s = Inl e \<longleftrightarrow>
     e = AttributeError \<and> (\<exists>v. map_of jd s = Some v \<and> \<not> is_dict v)"
  by (simp add: sample_record_def py_update_Inl_iff split: option.split)

subsection \<open>The loop\<close>

lemma merge_samples_Inl_iff:
  "merge_samples jd cd ss data = Inl e \<longleftrightarrow>
     e = AttributeError \<and> (\<exists>s \<in> set ss. \<exists>v. map_of jd s = Some v \<and> \<not> is_dict v)"
proof (induction ss arbitrary: data)
  case Nil
  then show ?case by simp
next
  case (Cons s ss)
  let ?bad = "\<lambda>s. \<exists>v. map_of jd s = Some v \<and> \<not> is_dict v"
  show ?case
  proof (cases "sample_record jd cd s")
    case (Inl e')
    then have "e' = AttributeError" and "?bad s"
      using sample_record_Inl_iff [of jd cd s e'] by simp_all
    with Inl show ?thesis by auto
  next
    case (Inr v)
    then have "\<not> ?bad s"
      using sample_record_Inl_iff [of jd cd s AttributeError] by auto
    moreover have "merge_samples jd cd (s # ss) data = merge_samples jd cd ss (dict_set data s v)"
      using Inr by simp
    ultimately show ?thesis
      using Cons.IH [of "dict_set data s v"] by auto
  qed
qed

lemma merge_samples_lookup:
  "merge_samples jd cd ss data = Inr data' \<Longrightarrow>
     map_of data' k =
       (if k \<in> set ss then (case sample_record jd cd k of Inr v \<Rightarrow> Some v | Inl _ \<Rightarrow> None)
        else map_of data k)"
proof (induction ss arbitrary: data)
  case Nil
  then show ?case by simp
next
  case (Cons s ss)
  then obtain v where v: "sample_record jd cd s = Inr v"
    and rest: "merge_samples jd cd ss (dict_set data s v) = Inr data'"
    by (auto split: sum.splits)
  show ?case
    using Cons.IH [OF rest] v by auto
qed

lemma merge_samples_Inr:
  "merge_samples jd cd ss data = Inr data' \<Longrightarrow> k \<in> set ss \<Longrightarrow>
     \<exists>v. sample_record jd cd k = Inr v \<and> map_of data' k = Some v"
proof -
  assume m: "merge_samples jd cd ss data = Inr data'" and k: "k \<in> set ss"
  have "\<not> (\<exists>s \<in> set ss. \<exists>v. map_of jd s = Some v \<and> \<not> is_dict v)"
    using m merge_samples_Inl_iff [of jd cd ss data AttributeError] by auto
  then have "sample_record jd cd k \<noteq> Inl e" for e
    using k sample_record_Inl_iff [of jd cd k e] by auto
  then obtain v where "sample_record jd cd k = Inr v"
    by (cases "sample_record jd cd k") auto
  with merge_samples_lookup [OF m, of k] k show ?thesis by simp
qed

lemma merge_samples_keys:
  "merge_samples jd cd ss data = Inr data' \<Longrightarrow> fst ` set data' = fst ` set data \<union> set ss"
  by (induction ss arbitrary: data) (auto split: sum.splits)

lemma merge_samples_wf:
  "merge_samples jd cd ss data = Inr data' \<Longrightarrow> dict_wf data \<Longrightarrow> dict_wf data'"
  by (induction ss arbitrary: data) (auto split: sum.splits)

lemma set_sample_union [simp]:
  "set (sample_union jd cd) = fst ` set jd \<union> fst ` set cd"
  by (auto simp: sample_union_def)

lemma distinct_sample_union [simp]: "distinct (sample_union jd cd)"
  by (simp add: sample_union_def)

subsection \<open>Properties of the merge\<close>

lemma merge_samples_not_Inl_Inr:
  "(\<forall>e. merge_samples jd cd ss data \<noteq> Inl e) \<Longrightarrow> \<exists>d'. merge_samples jd cd ss data = Inr d'"
  by (cases "merge_samples jd cd ss data") auto

text \<open>
  C10. The merged record of a sample holds exactly the fields of its two
  sources: those of its JSON summary (none if it has no JSON file) overlaid by
  those of its CSV aggregate (none if it has no CSV record), the aggregate
  winning where both have a field. A sample of only one source yields the
  fields of that source alone.
\<close>

theorem merged_record_provenance:
  assumes merged: "merge_samples jd cd (sample_union jd cd) [] = Inr data"
    and wf: "\<forall>r \<in> snd ` set cd. dict_wf r"
    and s: "s \<in> fst ` set jd \<union> fst ` set cd"
  shows "\<exists>j m. (case map_of jd s of Some v \<Rightarrow> v | None \<Rightarrow> VDict []) = VDict j \<and>
           map_of data s = Some (VDict m) \<and>
           map_of m = map_of j ++ map_of (str_dict (case map_of cd s of Some r \<Rightarrow> r | None \<Rightarrow> []))"
proof -
  from merged s obtain v where rec: "sample_record jd cd s = Inr v" and look: "map_of data s = Some v"
    using merge_samples_Inr [of jd cd "sample_union jd cd" "[]" data s] by auto
  let ?r = "case map_of cd s of Some r \<Rightarrow> r | None \<Rightarrow> []"
  from rec obtain j where j: "(case map_of jd s of Some v \<Rightarrow> v | None \<Rightarrow> VDict []) = VDict j"
    and v: "v = VDict (dict_update j (str_dict ?r))"
    by (auto simp: sample_record_def py_update_Inr_iff)
  have "dict_wf ?r"
  proof (cases "map_of cd s")
    case (Some r)
    then have "(s, r) \<in> set cd" by (rule map_of_SomeD)
    with wf Some show ?thesis by force
  qed simp
  then have "map_of (dict_update j (str_dict ?r)) = map_of j ++ map_of (str_dict ?r)"
    by (simp add: map_of_dict_update str_dict_wf)
  with j v look show ?thesis by blast
qed

text \<open>
  C11. The merge does not depend on the order in which the set of sample names
  is iterated: any two enumerations of the same names give the same error, or
  results with the same content.
\<close>

theorem merge_samples_order_independent:
  assumes "set ss1 = set ss2"
  shows "map_sum id map_of (merge_samples jd cd ss1 data) =
         map_sum id map_of (merge_samples jd cd ss2 data)"
proof (cases "\<exists>s \<in> set ss1. \<exists>v. map_of jd s = Some v \<and> \<not> is_dict v")
  case True
  then have "merge_samples jd cd ss1 data = Inl AttributeError"
    and "merge_samples jd cd ss2 data = Inl AttributeError"
    using assms by (simp_all add: merge_samples_Inl_iff)
  then show ?thesis by simp
next
  case False
  then obtain d1 d2 where d1: "merge_samples jd cd ss1 data = Inr d1"
    and d2: "merge_samples jd cd ss2 data = Inr d2"
    using assms merge_samples_not_Inl_Inr merge_samples_Inl_iff by metis
  have "map_of d1 = map_of d2"
    using merge_samples_lookup [OF d1] merge_samples_lookup [OF d2] assms by auto
  with d1 d2 show ?thesis by simp
qed

end
