(* ===== verification/Refine_Log.thy ===== *)
theory Refine_Log
  imports Refine_Aggregate_Props Refine_Summary Refine_Reconcile
begin

text \<open>
  \<open>RefineMixin.parse_refine_log\<close> (lines 18--86 of \<open>refine.py\<close>) as the
  composition of the components: the JSON loop (\<open>load_json_files\<close>), the CSV
  loop (\<open>load_csv_files\<close>), the check of the sample names
  (\<open>sample_sets_check\<close>), the merge (\<open>merge_samples\<close> over \<open>sample_union\<close>)
  and \<open>write_data_file\<close>. The flag \<open>config.use_filename_as_sample_name\<close> and
  Python's \<open>float\<close> are parameters. An exception anywhere ends the whole call:
  no sample gets a record and nothing is written. The lemmas split a successful
  run into the results of its stages.
\<close>

definition parse_refine_log ::
  "bool \<Rightarrow> float_parser \<Rightarrow> (pyval option) found_file list \<Rightarrow> (row list) found_file list \<Rightarrow>
   module_state \<Rightarrow> error + (string, pyval) dict \<times> module_state" where
  "parse_refine_log fn_as_s_name flt json_files csv_files st =
     (case load_json_files json_files [] st of
        Inl e \<Rightarrow> Inl e
      | Inr (json_data, st1) \<Rightarrow>
          (case load_csv_files flt csv_files [] st1 of
             Inl e \<Rightarrow> Inl e
           | Inr (csv_data, st2) \<Rightarrow>
               (let st3 = sample_sets_check fn_as_s_name json_data csv_data st2
                in (case merge_samples json_data csv_data (sample_union json_data csv_data) [] of
                      Inl e \<Rightarrow> Inl e
                    | Inr data \<Rightarrow>
                        Inr (data, write_data_file data ''multiqc_isoseq_refine_report'' st3)))))"

lemma parse_refine_log_Inr:
  "parse_refine_log flag flt jfs cfs st = Inr (data, st') \<longleftrightarrow>
     (\<exists>jd st1 cd st2.
        load_json_files jfs [] st = Inr (jd, st1) \<and>
        load_csv_files flt cfs [] st1 = Inr (cd, st2) \<and>
        merge_samples jd cd (sample_union jd cd) [] = Inr data \<and>
        st' = write_data_file data ''multiqc_isoseq_refine_report'' (sample_sets_check flag jd cd st2))"
  by (auto simp: parse_refine_log_def Let_def split: sum.splits prod.splits)

lemma parse_refine_log_csv_Inl:
  "load_json_files jfs [] st = Inr (jd, st1) \<Longrightarrow> load_csv_files flt cfs [] st1 = Inl e \<Longrightarrow>
     parse_refine_log flag flt jfs cfs st = Inl e"
  by (simp add: parse_refine_log_def)

lemma parse_refine_log_merge:
  "load_json_files jfs [] st = Inr (jd, st1) \<Longrightarrow> load_csv_files flt cfs [] st1 = Inr (cd, st2) \<Longrightarrow>
     parse_refine_log flag flt jfs cfs st =
       (case merge_samples jd cd (sample_union jd cd) [] of
          Inl e \<Rightarrow> Inl e
        | Inr data \<Rightarrow>
            Inr (data, write_data_file data ''multiqc_isoseq_refine_report''
                         (sample_sets_check flag jd cd st2)))"
  by (simp add: parse_refine_log_def)

lemma parse_refine_log_merge_Inl_iff:
  assumes j: "load_json_files jfs [] st = Inr (jd, st1)"
    and c: "load_csv_files flt cfs [] st1 = Inr (cd, st2)"
  shows "parse_refine_log flag flt jfs cfs st = Inl e \<longleftrightarrow>
           e = AttributeError \<and> (\<exists>s v. last_json jfs s = Some v \<and> \<not> is_dict v)"
proof -
  have look: "map_of jd s = last_json jfs s" for s
    using load_json_files_lookup [OF j, of s] by (simp split: option.split)
  have "(\<exists>s \<in> set (sample_union jd cd). \<exists>v. map_of jd s = Some v \<and> \<not> is_dict v) \<longleftrightarrow>
        (\<exists>s v. last_json jfs s = Some v \<and> \<not> is_dict v)"
  proof
    assume "\<exists>s v. last_json jfs s = Some v \<and> \<not> is_dict v"
    then obtain s v where sv: "map_of jd s = Some v" "\<not> is_dict v"
      using look by auto
    then have "s \<in> fst ` set jd" by (force dest: map_of_SomeD)
    with sv show "\<exists>s \<in> set (sample_union jd cd). \<exists>v. map_of jd s = Some v \<and> \<not> is_dict v"
      by auto
  qed (auto simp: look)
  then show ?thesis
    using parse_refine_log_merge [OF j c, of flag]
      merge_samples_Inl_iff [of jd cd "sample_union jd cd" "[]" e]
    by (auto split: sum.split)
qed

lemma error_log_sample_sets_check:
  "error_log (sample_sets_check flag jd cd st) =
     error_log st @
       (if flag then [FnAsSampleNameUnsupported]
        else if fst ` set jd \<noteq> fst ` set cd then [DifferentSampleSets (map fst jd) (map fst cd)]
        else [])"
  by (simp add: sample_sets_check_def log_error_def)

lemma error_log_write_data_file [simp]:
  "error_log (write_data_file data name st) = error_log st"
  by (simp add: write_data_file_def)

lemma saved_data_sample_sets_check [simp]:
  "saved_data (sample_sets_check flag jd cd st) = saved_data st"
  by (simp add: sample_sets_check_def log_error_def)

lemma error_log_load_json_files:
  "load_json_files fs jd st = Inr (jd', st') \<Longrightarrow> error_log st' = error_log st \<and> saved_data st' = saved_data st"
  by (induction fs arbitrary: jd st) (auto split: option.splits)

lemma error_log_load_csv_files:
  "load_csv_files flt fs cd st = Inr (cd', st') \<Longrightarrow> error_log st' = error_log st \<and> saved_data st' = saved_data st"
  by (induction fs arbitrary: cd st) (auto split: sum.splits option.splits)

lemma map_err_member_Inl:
  "x \<in> set xs \<Longrightarrow> f x = Inl e \<Longrightarrow> \<exists>e'. map_err f xs = Inl e'"
  by (induction xs) (auto split: sum.splits)

lemma load_csv_files_all_Inr:
  "\<forall>f \<in> set fs. \<exists>r. aggregate_csv flt (contents f) = Inr r \<Longrightarrow>
     \<exists>r. load_csv_files flt fs cd st = Inr r"
  by (induction fs arbitrary: cd st) (auto split: sum.splits option.splits)

end
