(* ===== verification/Refine_Report.thy ===== *)
theory Refine_Report
  imports Refine_Host
begin

text \<open>
  The report: \<open>add_general_stats_refine\<close> (lines 88--108) and
  \<open>add_table_refine\<close> (lines 110--208) of \<open>refine.py\<close>. Both build a dictionary
  of column headers and hand it, with the merged data, to the host
  (\<open>general_stats_addcols\<close>, \<open>add_section\<close> with \<open>table.plot\<close>). The headers
  are data: \<open>general_stats_headers\<close> shows three fields of the JSON summary,
  \<open>table_headers\<close> the sixteen statistics of the CSV aggregate. The theory
  \<open>Spec2Isabelle\<close> relates their keys to the fields the merge produces.
\<close>

definition hdr :: "string \<Rightarrow> string \<Rightarrow> string \<Rightarrow> column_header" where
  "hdr t d s = \<lparr>hdr_title = t, hdr_description = d, hdr_scale = s, hdr_format = None\<rparr>"

text \<open>Lines 89--107.\<close>

definition general_stats_headers :: "(string, column_header) dict" where
  "general_stats_headers =
     [(''num_reads_fl'',
       (hdr ''Full-length'' ''Number of CCS where both primers have been detected'' ''GnBu'')
         \<lparr>hdr_format := Some ''{:,.d}''\<rparr>),
      (''num_reads_flnc'',
       (hdr ''Non-chimeric full-length''
          ''Number of non-chimeric CCS where both primers have been detected'' ''RdYlGn'')
         \<lparr>hdr_format := Some ''{:,.d}''\<rparr>),
      (''num_reads_flnc_polya'',
       (hdr ''Poly(A) free non-chimeric full-length''
          ''Number of non-chimeric CCS where both primers have been detected and the poly(A) tail has been removed''
          ''GnBu'')
         \<lparr>hdr_format := Some ''{:,.d}''\<rparr>)]"

definition add_general_stats_refine :: "(string, pyval) dict \<Rightarrow> module_state \<Rightarrow> module_state" where
  "add_general_stats_refine data_by_sample st =
     general_stats_addcols data_by_sample general_stats_headers ''refine'' st"

text \<open>Lines 111--191.\<close>

definition table_headers :: "(string, column_header) dict" where
  "table_headers =
     [(''min_fivelen'', hdr ''Min 5' primer length'' ''The minimum 5' primer length in base pair'' ''GnBu''),
      (''mean_fivelen'', hdr ''Mean 5' primer length'' ''The mean 5' primer length in base pair'' ''RdYlGn''),
      (''std_fivelen'', hdr ''Std of 5' primer length'' ''The standard deviation of 5' primer length in base pair'' ''GnBu''),
      (''max_fivelen'', hdr ''Max 5' primer length'' ''The maximum 5' primer length in base pair'' ''GnBu''),
      (''min_threelen'', hdr ''Min 3' primer length'' ''The minimum 3' primer length in base pair'' ''GnBu''),
      (''mean_threelen'', hdr ''Mean 3' primer length'' ''The mean 3' primer length in base pair'' ''RdYlGn''),
      (''std_threelen'', hdr ''Std of 3' primer length'' ''The standard deviation of 3' primer length in base pair'' ''GnBu''),
      (''max_threelen'', hdr ''Max 3' primer length'' ''The maximum 3' primer length in base pair'' ''RdYlGn''),
      (''min_polyAlen'', hdr ''Min polyA tail length'' ''The minimum polyA tail length in base pair'' ''GnBu''),
      (''mean_polyAlen'', hdr ''Mean polyA tail length'' ''The mean polyA tail length in base pair'' ''RdYlGn''),
      (''std_polyAlen'', hdr ''Std of polyA tail length'' ''The standard deviation of polyA tail length in base pair'' ''GnBu''),
      (''max_polyAlen'', hdr ''Max polyA tail length'' ''The maximum polyA tail length in base pair'' ''RdYlGn''),
      (''min_insertlen'', hdr ''Min insert length'' ''The minimum insert length in base pair'' ''GnBu''),
      (''mean_insertlen'', hdr ''Mean insert length'' ''The mean insert length in base pair'' ''RdYlGn''),
      (''std_insertlen'', hdr ''Std of insert length'' ''The standard deviation of insert length in base pair'' ''GnBu''),
      (''max_insertlen'', hdr ''Max insert length'' ''The maximum insert length in base pair'' ''RdYlGn'')]"

definition table_config :: "(string, string) dict" where
  "table_config = [(''id'', ''isoseq_refine_table''), (''title'', ''Iso-Seq refine'')]"

text \<open>
  The help text of lines 202--206: three lines, each after a line break and the
  twelve blanks of the source's indentation, and a last break and indentation.
\<close>

definition refine_helptext :: string where
  "refine_helptext =
     concat (map (\<lambda>l. [CHR 0x0A] @ replicate 12 (CHR '' '') @ l)
       [''The .report.csv file contains information about 5' prime and 3' primers length, insert length,'',
        ''poly(A) length, and couple of primers detected for each CCS.'',
        ''The table presents min, max, mean, standard deviation for each parameter.''])
     @ [CHR 0x0A] @ replicate 12 (CHR '' '')"

definition add_table_refine :: "(string, pyval) dict \<Rightarrow> module_state \<Rightarrow> module_state" where
  "add_table_refine data_by_sample st =
     add_section
       \<lparr>sec_name = ''Iso-Seq refine'', sec_anchor = ''insert-refine-stats'',
        sec_description = ''Iso-Seq refine statistics'', sec_helptext = refine_helptext,
        sec_plot = TablePlot data_by_sample table_headers table_config\<rparr> st"

lemma general_stats_keys:
  "map fst general_stats_headers = [''num_reads_fl'', ''num_reads_flnc'', ''num_reads_flnc_polya'']"
  by (simp add: general_stats_headers_def)

lemma table_keys:
  "map fst table_headers =
     [''min_fivelen'', ''mean_fivelen'', ''std_fivelen'', ''max_fivelen'',
      ''min_threelen'', ''mean_threelen'', ''std_threelen'', ''max_threelen'',
      ''min_polyAlen'', ''mean_polyAlen'', ''std_polyAlen'', ''max_polyAlen'',
      ''min_insertlen'', ''mean_insertlen'', ''std_insertlen'', ''max_insertlen'']"
  by (simp add: table_headers_def)

end
