(* ===== verification/Refine_Module.thy ===== *)
theory Refine_Module
  imports Refine_Log Refine_Report
begin

text \<open>
  The module object over its lifetime. A MultiQC module that mixes in
  \<open>RefineMixin\<close> calls \<open>parse_refine_log\<close> and then the two report methods on its
  state \<open>self\<close>; the class that makes these calls is not among the sources, so
  their order is modelled from the specification as the step relation
  \<open>module_step\<close>, with one rule per call: a successful run of
  \<open>parse_refine_log\<close> (lines 18--86), a call of \<open>add_general_stats_refine\<close>
  (lines 88--108) and one of \<open>add_table_refine\<close> (lines 110--208).
\<close>

inductive module_step :: "module_state \<Rightarrow> module_state \<Rightarrow> bool" where
  run: "parse_refine_log flag flt jfs cfs st = Inr (data, st') \<Longrightarrow> module_step st st'"
| general_stats: "module_step st (add_general_stats_refine data st)"
| table: "module_step st (add_table_refine data st)"

end
