(* ===== verification/Refine_Boundary.thy ===== *)
theory Refine_Boundary
  imports Refine_Module
begin

text \<open>
  Progress: a run on well-formed input files (every JSON file an object, every
  CSV row parseable) always succeeds, and the module then reaches the state
  after both report methods (C18).
\<close>

subsection \<open>Helpers\<close>



subsection \<open>Progress\<close>



end
