(* ===== verification/Refine_Codec.thy ===== *)
theory Refine_Codec
  imports Refine_Log
begin

text \<open>
  Reading back what the module stores. \<open>csv_data[s_name] = d\<close> with the later
  \<open>.update\<close> (lines 65 and 83) turns the record of a sample, a dictionary with
  string keys, into a Python dictionary (\<open>str_dict\<close>); \<open>decode_record\<close> reads
  such a value back, as a consumer of the written data file would. \<open>last_csv\<close>
  names the rows of the last non-empty CSV file of a sample, the one whose
  record the CSV loop keeps.
\<close>

fun decode_entries :: "(pyval \<times> pyval) list \<Rightarrow> (string, pyval) dict option" where
  "decode_entries [] = Some []"
| "decode_entries ((VStr k, v) # ps) = map_option ((#) (k, v)) (decode_entries ps)"
| "decode_entries (_ # ps) = None"

fun decode_record :: "pyval \<Rightarrow> (string, pyval) dict option" where
  "decode_record (VDict ps) = decode_entries ps"
| "decode_record _ = None"

definition last_csv :: "(row list) found_file list \<Rightarrow> string \<Rightarrow> row list option" where
  "last_csv fs s =
     (case filter (\<lambda>f. s_name f = s \<and> contents f \<noteq> []) (rev fs) of
        [] \<Rightarrow> None
      | f # _ \<Rightarrow> Some (contents f))"

subsection \<open>Decoding\<close>

lemma decode_entries_str_dict [simp]: "decode_entries (str_dict d) = Some d"
  by (induction d) (auto simp: str_dict_def)

subsection \<open>The CSV loop keeps the record of the last non-empty file\<close>

lemma load_csv_files_all_aggregate:
  "load_csv_files flt fs cd st = Inr r \<Longrightarrow> f \<in> set fs \<Longrightarrow> \<exists>x. aggregate_csv flt (contents f) = Inr x"
  by (induction fs arbitrary: cd st) (auto split: sum.splits option.splits)

lemma last_csv_Cons:
  "last_csv (f # fs) s =
     (case last_csv fs s of
        None \<Rightarrow> (if s_name f = s \<and> contents f \<noteq> [] then Some (contents f) else None)
      | Some rows \<Rightarrow> Some rows)"
  by (simp add: last_csv_def split: list.split)

lemma load_csv_files_lookup:
  "load_csv_files flt fs cd st = Inr (cd', st') \<Longrightarrow>
     map_of cd' s =
       (case last_csv fs s of
          None \<Rightarrow> map_of cd s
        | Some rows \<Rightarrow> (case aggregate_csv flt rows of Inr (Some d) \<Rightarrow> Some d | _ \<Rightarrow> None))"
proof (induction fs arbitrary: cd st)
  case Nil
  then show ?case by (simp add: last_csv_def)
next
  case (Cons f fs)
  show ?case
  proof (cases "aggregate_csv flt (contents f)")
    case (Inl e)
    with Cons.prems show ?thesis by simp
  next
    case (Inr x)
    show ?thesis
    proof (cases x)
      case None
      then have "contents f = []" using Inr by (simp add: aggregate_csv_absent_iff)
      with Inr None Cons.prems show ?thesis
        using Cons.IH [of cd st] by (simp add: last_csv_Cons split: option.split)
    next
      case (Some d)
      then have "contents f \<noteq> []" using Inr by auto
      moreover have rest: "load_csv_files flt fs (dict_set cd (s_name f) d)
                             (add_data_source f st) = Inr (cd', st')"
        using Cons.prems Inr Some by simp
      ultimately show ?thesis
        using Cons.IH [OF rest] Inr Some by (simp add: last_csv_Cons split: option.split)
    qed
  qed
qed

lemma last_csv_member:
  "last_csv fs s = Some rows \<Longrightarrow> \<exists>f \<in> set fs. s_name f = s \<and> contents f = rows \<and> rows \<noteq> []"
proof -
  assume l: "last_csv fs s = Some rows"
  then obtain f gs where fl: "filter (\<lambda>f. s_name f = s \<and> contents f \<noteq> []) (rev fs) = f # gs"
    by (auto simp: last_csv_def split: list.splits)
  then have "f \<in> set (filter (\<lambda>f. s_name f = s \<and> contents f \<noteq> []) (rev fs))"
    by simp
  then have "f \<in> set fs" "s_name f = s" "contents f \<noteq> []"
    by auto
  moreover have "rows = contents f"
    using l fl by (simp add: last_csv_def)
  ultimately show ?thesis by blast
qed

text \<open>
  C16. For a sample with a non-empty CSV report and no JSON summary, the value a
  successful run returns decodes to exactly the aggregate of the sample's last
  non-empty CSV file: earlier files of the same sample are overridden, and the
  merge adds nothing to the record.
\<close>

theorem csv_only_record_roundtrip:
  assumes run: "parse_refine_log flag flt jfs cfs st = Inr (data, st')"
    and nojson: "s \<notin> s_name ` set jfs" and last: "last_csv cfs s = Some rows"
  shows "\<exists>d v. aggregate_csv flt rows = Inr (Some d) \<and> map_of data s = Some v \<and>
           decode_record v = Some d"
proof -
  from run obtain jd st1 cd st2 where j: "load_json_files jfs [] st = Inr (jd, st1)"
    and c: "load_csv_files flt cfs [] st1 = Inr (cd, st2)"
    and mg: "merge_samples jd cd (sample_union jd cd) [] = Inr data"
    by (auto simp: parse_refine_log_Inr)
  from last_csv_member [OF last] obtain f where f: "f \<in> set cfs" "contents f = rows" "rows \<noteq> []"
    by blast
  with load_csv_files_all_aggregate [OF c] obtain x where "aggregate_csv flt rows = Inr x"
    by blast
  with f obtain d where agg: "aggregate_csv flt rows = Inr (Some d)"
    by (cases x) (auto simp: aggregate_csv_absent_iff)
  have cd_s: "map_of cd s = Some d"
    using load_csv_files_lookup [OF c, of s] last agg by simp
  have "s \<notin> fst ` set jd"
    using nojson load_json_files_keys [OF j] by simp
  then have jd_s: "map_of jd s = None"
    by (simp add: map_of_eq_None_iff)
  have "s \<in> set (sample_union jd cd)"
    using cd_s by (force dest: map_of_SomeD)
  then obtain v where rec: "sample_record jd cd s = Inr v" and look: "map_of data s = Some v"
    using merge_samples_Inr [OF mg] by blast
  have "dict_wf d"
    using agg by (rule aggregate_csv_wf)
  then have "v = VDict (str_dict d)"
    using rec jd_s cd_s by (simp add: sample_record_def dict_update_fresh str_dict_wf)
  with agg look show ?thesis by simp
qed

end
