(* ===== verification/Refine_Scenarios.thy ===== *)
theory Refine_Scenarios
  imports Refine_Boundary Refine_Codec
begin

text \<open>
  Concrete inputs for the examples of the specification (its section 8) and for
  the witnesses of the theorems: the two rows of sample \<open>s1\<close>, the record the
  specification expects for them, the JSON and CSV files of the scenarios
  \<open>s1\<close> and \<open>s2\<close>/\<open>s3\<close>, and a row whose \<open>fivelen\<close> is not a number. Every
  lemma here is evaluated by the simplifier; Python's \<open>float\<close> is
  \<open>decimal_float\<close>.
\<close>

definition scenario_row1 :: row where
  "scenario_row1 =
     [(''fivelen'', CStr ''10''), (''threelen'', CStr ''5''), (''polyAlen'', CStr ''20''),
      (''insertlen'', CStr ''500''), (''strand'', CStr ''+''), (''primer'', CStr ''p1'')]"

definition scenario_row2 :: row where
  "scenario_row2 =
     [(''fivelen'', CStr ''12''), (''threelen'', CStr ''7''), (''polyAlen'', CStr ''22''),
      (''insertlen'', CStr ''520''), (''strand'', CStr ''-''), (''primer'', CStr ''p1'')]"

definition bad_row :: row where
  "bad_row =
     [(''fivelen'', CStr ''x''), (''threelen'', CStr ''5''), (''polyAlen'', CStr ''20''),
      (''insertlen'', CStr ''500''), (''strand'', CStr ''+''), (''primer'', CStr ''p1'')]"

definition scenario_record :: "(string, pyval) dict" where
  "scenario_record =
     [(''min_fivelen'', VFloat (Fin 10)), (''mean_fivelen'', VFloat (Fin 11)),
      (''std_fivelen'', VFloat (Fin 1)), (''max_fivelen'', VFloat (Fin 12)),
      (''min_threelen'', VFloat (Fin 5)), (''mean_threelen'', VFloat (Fin 6)),
      (''std_threelen'', VFloat (Fin 1)), (''max_threelen'', VFloat (Fin 7)),
      (''min_polyAlen'', VFloat (Fin 20)), (''mean_polyAlen'', VFloat (Fin 21)),
      (''std_polyAlen'', VFloat (Fin 1)), (''max_polyAlen'', VFloat (Fin 22)),
      (''min_insertlen'', VFloat (Fin 500)), (''mean_insertlen'', VFloat (Fin 510)),
      (''std_insertlen'', VFloat (Fin 10)), (''max_insertlen'', VFloat (Fin 520)),
      (''strand_counts'', VDict [(VStr ''+'', VInt 1), (VStr ''-'', VInt 1)]),
      (''primer_counts'', VDict [(VStr ''p1'', VInt 2)])]"

definition json_s1 :: "(pyval option) found_file" where
  "json_s1 =
     \<lparr>s_name = ''s1'', fn = ''s1.report.json'',
      contents = Some (VDict [(VStr ''num_reads_fl'', VInt 100)])\<rparr>"

definition csv_s1 :: "(row list) found_file" where
  "csv_s1 = \<lparr>s_name = ''s1'', fn = ''s1.report.csv'', contents = [scenario_row1, scenario_row2]\<rparr>"

definition json_s2 :: "(pyval option) found_file" where
  "json_s2 =
     \<lparr>s_name = ''s2'', fn = ''s2.report.json'',
      contents = Some (VDict [(VStr ''num_reads_fl'', VInt 7)])\<rparr>"

definition csv_s3 :: "(row list) found_file" where
  "csv_s3 = \<lparr>s_name = ''s3'', fn = ''s3.report.csv'', contents = [scenario_row1, scenario_row2]\<rparr>"

definition csv_bad :: "(row list) found_file" where
  "csv_bad = \<lparr>s_name = ''s4'', fn = ''s4.report.csv'', contents = [scenario_row1, bad_row]\<rparr>"

definition csv_empty :: "(row list) found_file" where
  "csv_empty = \<lparr>s_name = ''s6'', fn = ''s6.report.csv'', contents = []\<rparr>"

text \<open>
  An accumulator as Python's float additions leave it for a column of three
  values \<open>0.1\<close>: the sum of the squares falls short of the square of the sum
  over the count, so that \<open>squared_sums / counts - mean ** 2\<close> is negative.
\<close>

definition rounded_acc :: csv_acc where
  "rounded_acc =
     init_acc\<lparr>counts := map (\<lambda>c. (c, 3)) refine_columns,
              sum_totals := map (\<lambda>c. (c, 3 / 10)) refine_columns,
              squared_sums := map (\<lambda>c. (c, 3 / 100 - 1 / 10 ^ 18)) refine_columns,
              mins := map (\<lambda>c. (c, Fin (1 / 10))) refine_columns,
              maxs := map (\<lambda>c. (c, Fin (1 / 10))) refine_columns\<rparr>"

text \<open>The results of the two runs of the specification's examples.\<close>

definition s1_data :: "(string, pyval) dict" where
  "s1_data = [(''s1'', VDict ((VStr ''num_reads_fl'', VInt 100) # str_dict scenario_record))]"

definition s1_state :: module_state where
  "s1_state =
     write_data_file s1_data ''multiqc_isoseq_refine_report''
       (add_data_source csv_s1
          (add_data_source json_s1 empty_module))"

definition s23_data :: "(string, pyval) dict" where
  "s23_data =
     [(''s2'', VDict [(VStr ''num_reads_fl'', VInt 7)]), (''s3'', VDict (str_dict scenario_record))]"

definition s23_state :: module_state where
  "s23_state =
     write_data_file s23_data ''multiqc_isoseq_refine_report''
       (log_error (DifferentSampleSets [''s2''] [''s3''])
          (add_data_source csv_s3
             (add_data_source json_s2 empty_module)))"

text \<open>Small inputs of the merge: a JSON summary of two samples and a CSV record of one.\<close>

definition merge_jd :: "(string, pyval) dict" where
  "merge_jd = [(''a'', VDict [(VStr ''num_reads_fl'', VInt 3)]), (''b'', VDict [])]"

definition merge_cd :: "(string, (string, pyval) dict) dict" where
  "merge_cd = [(''a'', [(''num_reads_fl'', VInt 4), (''mean_fivelen'', VFloat (Fin 2))])]"

lemma scenario_parse_row1:
  "parse_row decimal_float scenario_row1 = Inr ([10, 5, 20, 500], CStr ''+'', CStr ''p1'')"
  by (simp add: parse_row_def scenario_row1_def refine_columns_def row_float_def row_get_def
                decimal_float_def unsigned_decimal_def digit_val_def)

lemma scenario_parse_row2:
  "parse_row decimal_float scenario_row2 = Inr ([12, 7, 22, 520], CStr ''-'', CStr ''p1'')"
  by (simp add: parse_row_def scenario_row2_def refine_columns_def row_float_def row_get_def
                decimal_float_def unsigned_decimal_def digit_val_def)

lemma bad_row_parse: "parse_row decimal_float bad_row = Inl (ValueError ''x'')"
  by (simp add: parse_row_def bad_row_def refine_columns_def row_float_def row_get_def
                decimal_float_def unsigned_decimal_def digit_val_def)

lemma sqrt_100: "sqrt (100::real) = 10"
  by (simp add: real_sqrt_unique)

lemma scenario_aggregate:
  "aggregate_csv decimal_float [scenario_row1, scenario_row2] = Inr (Some scenario_record)"
  by (simp add: aggregate_csv_via_parse scenario_parse_row1 scenario_parse_row2
                reference_record_def upt_four refine_columns_def stat_entries_def mean_of_def
                pvariance_def sqrt_100 counter_val_def count_dict_def scenario_record_def)

lemma bad_aggregate:
  "aggregate_csv decimal_float [scenario_row1, bad_row] = Inl (ValueError ''x'')"
  by (simp add: aggregate_csv_via_parse scenario_parse_row1 bad_row_parse)

lemma rounded_acc_finalize:
  "\<exists>d. finalize_csv rounded_acc = Inr (Some d) \<and>
     map_of d (''std_'' @ ''fivelen'') = Some (VFloat (Fin 0))"
  by (simp add: finalize_csv_def rounded_acc_def init_acc_def refine_columns_def
                column_moments_def py_div_def Let_def power2_eq_square)

lemma s1_run:
  "parse_refine_log False decimal_float [json_s1] [csv_s1] empty_module = Inr (s1_data, s1_state)"
  by (simp add: parse_refine_log_def json_s1_def csv_s1_def scenario_aggregate sample_sets_check_def
                sample_union_def sample_record_def str_dict_def s1_data_def s1_state_def
                scenario_record_def)

lemma s23_run:
  "parse_refine_log False decimal_float [json_s2] [csv_s3] empty_module = Inr (s23_data, s23_state)"
  by (simp add: parse_refine_log_def json_s2_def csv_s3_def scenario_aggregate sample_sets_check_def
                sample_union_def sample_record_def str_dict_def s23_data_def s23_state_def
                scenario_record_def)

end
