(* ===== verification/Spec2Isabelle.thy ===== *)
theory Spec2Isabelle
  imports Refine_Scenarios
begin

text \<open>
  Verification of the Iso-Seq refine module of MultiQC,
  \<open>src/multiqc/modules/isoseq/refine.py\<close>: the mixin \<open>RefineMixin\<close> with the
  methods \<open>parse_refine_log\<close> (lines 18--86), \<open>add_general_stats_refine\<close>
  (lines 88--108) and \<open>add_table_refine\<close> (lines 110--208).

  \<^bold>\<open>The program.\<close> \<open>parse_refine_log\<close> reads two kinds of files per sample:
  a JSON summary of \<open>isoseq refine\<close> and a CSV report with one row per read.
  It loads every JSON file (the summary loader), folds the rows of every CSV
  file into running statistics and turns them into one record per sample (the
  aggregator), logs an error when the two sets of sample names differ or when
  file names are used as sample names, merges the two sources per sample (the
  reconciler), writes the merged data to a file and returns it. The two other
  methods hand the merged data with fixed column headers to the report.

  \<^bold>\<open>Theories and correspondence.\<close>
  \<^item> \<open>Refine_Prelude\<close>: Python dictionaries as association lists in insertion
    order (\<open>dict_set\<close> is \<open>d[k] = v\<close>, \<open>dict_update\<close> is \<open>d.update(e)\<close>,
    \<open>dd_get\<close> reads a \<open>defaultdict\<close>, \<open>counter_incr\<close> is \<open>c[k] += 1\<close>) and
    their well-formedness \<open>dict_wf\<close> (distinct keys).
  \<^item> \<open>Py_Values\<close>: Python floats with infinities (\<open>xfloat\<close>), \<open>min\<close> and \<open>max\<close>,
    the cells of \<open>csv.DictReader\<close>, the values of \<open>json.load\<close> (\<open>pyval\<close>), the
    exceptions (\<open>error\<close>), \<open>float()\<close> (\<open>py_float\<close>), division and \<open>.update\<close>.
  \<^item> \<open>Refine_Host\<close>: the MultiQC module object \<open>self\<close> as a record
    \<open>module_state\<close> and the host calls the module makes (\<open>add_data_source\<close>,
    \<open>write_data_file\<close>, \<open>log.error\<close>, \<open>general_stats_addcols\<close>,
    \<open>add_section\<close>). The base class is not among the sources: each call is
    recorded with its arguments, and nothing is assumed about how the base class
    files them.
  \<^item> \<open>Refine_Aggregate\<close>: the CSV loop, lines 26--66 (\<open>add_value\<close>,
    \<open>process_columns\<close>, \<open>process_row\<close>, \<open>process_rows\<close>, \<open>column_moments\<close>,
    \<open>column_stats\<close>, \<open>finalize_csv\<close>, \<open>aggregate_csv\<close>, \<open>load_csv_files\<close>),
    with a two-pass reference semantics (\<open>reference_csv\<close>) and the proof that
    the single-pass code computes it (C1). \<open>Refine_Aggregate_Props\<close> holds the
    effect of empty files (C3), the label counts (C4), the guard on the variance
    (C5), the invariant \<open>acc_inv\<close> (C6, C7) and the errors (C8).
  \<^item> \<open>Refine_Summary\<close>: the JSON loop, lines 22--24 (\<open>load_json_files\<close>), and
    the value it leaves per sample (\<open>last_json\<close>).
  \<^item> \<open>Refine_Reconcile\<close>: the sample-name check, lines 68--79
    (\<open>sample_sets_check\<close>), and the merge, lines 80--83 (\<open>sample_record\<close>,
    \<open>merge_samples\<close>, \<open>sample_union\<close>), with its provenance (C10) and its
    independence of the iteration order of the Python set (C11).
  \<^item> \<open>Refine_Log\<close>: \<open>parse_refine_log\<close> as the composition of the stages,
    passing the module state from one to the next and ending at the first
    exception.
  \<^item> \<open>Refine_Report\<close>: the headers and configuration of lines 88--208
    (\<open>general_stats_headers\<close>, \<open>table_headers\<close>, \<open>table_config\<close>,
    \<open>refine_helptext\<close>) and the two report methods.
  \<^item> \<open>Refine_Codec\<close>: \<open>decode_record\<close>, which reads a stored record back, and the
    lookup of the CSV loop (the last non-empty CSV file of a sample wins,
    \<open>last_csv\<close>), with the round trip of the record of a CSV-only sample
    through a whole run (C16).
  \<^item> \<open>Refine_Module\<close>: the calls of the three methods on the module object as a
    step relation \<open>module_step\<close>; \<open>Refine_Boundary\<close>: progress on well-formed
    input files (C18).
  \<^item> \<open>Refine_Scenarios\<close>: the examples of the specification as concrete files,
    evaluated by the simplifier, used by the witnesses.
  \<^item> This theory: the properties of a whole run of \<open>parse_refine_log\<close>: which
    samples get a record (C2), the log (C9), the abort on a malformed row (C12),
    the agreement of the table with the records (C13), the general statistics
    fields (C14), the written data (C15) and the complete description of the
    failing runs (C17).

  \<^bold>\<open>Modelling choices.\<close> Python's \<open>float()\<close> on strings is a parameter
  \<open>float_parser\<close> of every operation that reads numbers; every theorem holds
  for all parsers, and the examples use \<open>decimal_float\<close>, which reads decimal
  literals. Arithmetic is exact on \<open>real\<close>: floating-point rounding is not
  modelled. C1 is therefore the equivalence of the one-pass and the two-pass
  statistics in exact arithmetic; properties that rounding breaks in Python
  (the mean of three values \<open>0.1\<close> exceeds their maximum, a constant column of
  \<open>0.3\<close> gets a standard deviation of \<open>3.7e-9\<close>) are not claimed. The guard of
  line 57 is stated for every accumulator (C5), not only for those exact
  arithmetic produces, so that it covers the negative variances rounding leaves.
  Python's integers are \<open>int\<close>. The loop over the set of sample names is a loop
  over a list with the same elements; C11 shows the result does not depend on
  the order, and no property depends on the order of the samples in the result.
  An exception is the value \<open>Inl e\<close> of the whole call: the partly updated
  module object (data sources registered before the exception) is not returned,
  as the exception leaves the module's constructor and MultiQC drops the module.
  No loop of the module can run forever: every loop is over a finite list, so
  every operation is a total function defined by structural recursion and no
  fuel is needed; the development therefore states no separate termination
  theorem. Progress is stated instead for the module's method calls (C18).

  \<^bold>\<open>Not modelled.\<close> File discovery (\<open>find_log_files\<close>), the decoding of JSON
  text and the tokenisation of CSV text (a file is given as its decoded value
  or its rows), the grammar of Python's \<open>float\<close> (a parameter), floating-point
  rounding, the rendering of the table and of the general statistics, and
  MultiQC's configuration beyond the flag \<open>use_filename_as_sample_name\<close>. The
  module class that calls the mixin's methods and the MultiQC base class are not
  among the sources: the host calls are recorded with their arguments and the
  order of the method calls (\<open>module_step\<close>) is modelled from the
  specification. Non-finite floats (\<open>float("inf")\<close>, \<open>float("nan")\<close> in a CSV
  cell) are outside the model, since the parsed values are reals; the finding
  that the code accepts them is recorded without a theorem.
\<close>

subsection \<open>Properties of a whole run\<close>

lemma general_stats_keys_not_aggregate:
  "k \<in> set (map fst general_stats_headers) \<Longrightarrow> k \<notin> set aggregate_keys"
  by (auto simp: general_stats_keys aggregate_keys_def)

text \<open>
  C2. A run that succeeds returns one record per sample, exactly for the
  samples that have a JSON summary or a CSV report with at least one row, each
  sample once.
\<close>

theorem parse_refine_log_keys:
  assumes "parse_refine_log flag flt jfs cfs st = Inr (data, st')"
  shows "fst ` set data = s_name ` set jfs \<union> s_name ` {f \<in> set cfs. contents f \<noteq> []} \<and>
         dict_wf data"
proof -
  from assms obtain jd st1 cd st2 where j: "load_json_files jfs [] st = Inr (jd, st1)"
    and c: "load_csv_files flt cfs [] st1 = Inr (cd, st2)"
    and m: "merge_samples jd cd (sample_union jd cd) [] = Inr data"
    by (auto simp: parse_refine_log_Inr)
  have "fst ` set data = fst ` set jd \<union> fst ` set cd"
    using merge_samples_keys [OF m] by simp
  moreover have "fst ` set jd = s_name ` set jfs"
    using load_json_files_keys [OF j] by simp
  moreover have "fst ` set cd = s_name ` {f \<in> set cfs. contents f \<noteq> []}"
    using load_csv_files_keys [OF c] by simp
  moreover have "dict_wf data"
    using merge_samples_wf [OF m] by (simp add: dict_wf_Nil)
  ultimately show ?thesis by simp
qed

text \<open>
  C9. A successful run adds at most one message to the error log: with
  \<open>use_filename_as_sample_name\<close> set, always the message that the module does
  not support it; otherwise a message listing both sets of sample names,
  exactly when the samples with a JSON summary differ from those with a
  non-empty CSV report.
\<close>

theorem sample_sets_warning:
  assumes "parse_refine_log flag flt jfs cfs st = Inr (data, st')"
  shows "\<exists>msgs. error_log st' = error_log st @ msgs \<and> length msgs \<le> 1 \<and>
           (flag \<longrightarrow> msgs = [FnAsSampleNameUnsupported]) \<and>
           (\<not> flag \<longrightarrow> (\<forall>m \<in> set msgs. \<exists>a b. m = DifferentSampleSets a b) \<and>
              (msgs = [] \<longleftrightarrow> s_name ` set jfs = s_name ` {f \<in> set cfs. contents f \<noteq> []}))"
proof -
  from assms obtain jd st1 cd st2 where j: "load_json_files jfs [] st = Inr (jd, st1)"
    and c: "load_csv_files flt cfs [] st1 = Inr (cd, st2)"
    and st': "st' = write_data_file data ''multiqc_isoseq_refine_report'' (sample_sets_check flag jd cd st2)"
    by (auto simp: parse_refine_log_Inr)
  have "error_log st2 = error_log st"
    using error_log_load_json_files [OF j] error_log_load_csv_files [OF c] by simp
  moreover have "fst ` set jd = s_name ` set jfs"
    using load_json_files_keys [OF j] by simp
  moreover have "fst ` set cd = s_name ` {f \<in> set cfs. contents f \<noteq> []}"
    using load_csv_files_keys [OF c] by simp
  ultimately show ?thesis
    using st' by (simp add: error_log_sample_sets_check)
qed

text \<open>
  C12. One CSV row that does not parse, in any CSV file of any sample, ends the
  whole run with an exception, when the JSON files decode: no sample gets a
  record and nothing is written.
\<close>

theorem malformed_csv_aborts_run:
  assumes "\<forall>f \<in> set jfs. contents f \<noteq> None"
    and "f \<in> set cfs" and "r \<in> set (contents f)" and "parse_row flt r = Inl e0"
  shows "\<exists>e. parse_refine_log flag flt jfs cfs st = Inl e"
proof -
  obtain jd st1 where j: "load_json_files jfs [] st = Inr (jd, st1)"
    using assms(1) by (rule load_json_files_obtain)
  obtain e1 where "map_err (parse_row flt) (contents f) = Inl e1"
    using map_err_member_Inl [of r "contents f" "parse_row flt", OF assms(3,4)] by auto
  then have "aggregate_csv flt (contents f) = Inl e1"
    by (simp add: aggregate_csv_via_parse)
  then obtain e where "load_csv_files flt cfs [] st1 = Inl e"
    using load_csv_files_some_Inl [OF assms(2)] by blast
  with j show ?thesis
    by (blast intro: parse_refine_log_csv_Inl)
qed

text \<open>
  C13. The columns of the report table are the statistics of the CSV record,
  in the same order: every record of a sample with a non-empty CSV report holds
  exactly the sixteen fields the table shows, followed by the two label
  counters.
\<close>

theorem table_columns_match_record:
  assumes "aggregate_csv flt rows = Inr (Some d)"
  shows "map fst d = map fst table_headers @ [''strand_counts'', ''primer_counts'']"
  using aggregate_csv_keys [OF assms] by (simp add: table_keys aggregate_keys_def)

text \<open>
  C14. The fields of the general statistics table (\<open>num_reads_fl\<close>,
  \<open>num_reads_flnc\<close>, \<open>num_reads_flnc_polya\<close>) of a merged record are those of
  the sample's last JSON summary: the CSV record never overrides them.
\<close>

theorem general_stats_from_json:
  assumes run: "parse_refine_log flag flt jfs cfs st = Inr (data, st')"
    and s: "map_of data s = Some (VDict m)" and k: "k \<in> set (map fst general_stats_headers)"
  shows "map_of m (VStr k) =
           (case last_json jfs s of Some (VDict j) \<Rightarrow> map_of j (VStr k) | _ \<Rightarrow> None)"
proof -
  from run obtain jd st1 cd st2 where j: "load_json_files jfs [] st = Inr (jd, st1)"
    and c: "load_csv_files flt cfs [] st1 = Inr (cd, st2)"
    and mg: "merge_samples jd cd (sample_union jd cd) [] = Inr data"
    by (auto simp: parse_refine_log_Inr)
  have "(s, VDict m) \<in> set data"
    using s by (rule map_of_SomeD)
  then have "s \<in> fst ` set data" by force
  then have "s \<in> set (sample_union jd cd)"
    using merge_samples_keys [OF mg] by simp
  then obtain v where rec: "sample_record jd cd s = Inr v" and "map_of data s = Some v"
    using merge_samples_Inr [OF mg] by blast
  with s have rec: "sample_record jd cd s = Inr (VDict m)" by simp
  define r where "r = (case map_of cd s of Some r \<Rightarrow> r | None \<Rightarrow> [])"
  define base where "base = (case map_of jd s of Some v \<Rightarrow> v | None \<Rightarrow> VDict [])"
  have r_k: "map_of r k = None"
  proof (cases "map_of cd s")
    case (Some r')
    then have "map fst r' = aggregate_keys"
      using load_csv_files_record_keys [OF c] by (blast dest: map_of_SomeD)
    then have "k \<notin> set (map fst r')"
      using general_stats_keys_not_aggregate [OF k] by simp
    with Some show ?thesis by (simp add: r_def map_of_eq_None_iff)
  qed (simp add: r_def)
  have r_wf: "dict_wf r"
  proof (cases "map_of cd s")
    case (Some r')
    then have "r' \<in> snd ` set cd" by (force dest: map_of_SomeD)
    with load_csv_files_wf [OF c] Some show ?thesis by (auto simp: r_def)
  qed (simp add: r_def dict_wf_Nil)
  from rec obtain j where base: "base = VDict j" and m: "m = dict_update j (str_dict r)"
    by (auto simp: sample_record_def py_update_Inr_iff base_def r_def)
  have "map_of m (VStr k) = map_of j (VStr k)"
    using r_k by (simp add: m map_of_dict_update str_dict_wf [OF r_wf] map_of_str_dict map_add_def)
  moreover have "map_of jd s = last_json jfs s"
    using load_json_files_lookup [OF j, of s] by (simp split: option.split)
  ultimately show ?thesis
    using base by (cases "last_json jfs s") (simp_all add: base_def)
qed

text \<open>
  C15. A successful run writes its result once, as the data file
  \<open>multiqc_isoseq_refine_report\<close>, after every file written before it.
\<close>

theorem parse_refine_log_saves_data:
  assumes "parse_refine_log flag flt jfs cfs st = Inr (data, st')"
  shows "saved_data st' = saved_data st @ [(''multiqc_isoseq_refine_report'', data)]"
proof -
  from assms obtain jd st1 cd st2 where j: "load_json_files jfs [] st = Inr (jd, st1)"
    and c: "load_csv_files flt cfs [] st1 = Inr (cd, st2)"
    and st': "st' = write_data_file data ''multiqc_isoseq_refine_report'' (sample_sets_check flag jd cd st2)"
    by (auto simp: parse_refine_log_Inr)
  then show ?thesis
    using error_log_load_json_files [OF j] error_log_load_csv_files [OF c]
    by (simp add: write_data_file_def)
qed

text \<open>
  C17. When and with which exception a run fails, completely: with
  \<open>JSONDecodeError\<close> when some JSON file does not decode; otherwise with the
  exception of the first CSV file (in the order the files are found) whose
  aggregation fails; otherwise with \<open>AttributeError\<close> when some sample's JSON
  value is not an object. No other run fails.
\<close>

theorem parse_refine_log_error_iff:
  "parse_refine_log flag flt jfs cfs st = Inl e \<longleftrightarrow>
     (e = JSONDecodeError \<and> (\<exists>f \<in> set jfs. contents f = None)) \<or>
     ((\<forall>f \<in> set jfs. contents f \<noteq> None) \<and>
      (\<exists>pre f post. cfs = pre @ f # post \<and>
         (\<forall>g \<in> set pre. \<exists>r. aggregate_csv flt (contents g) = Inr r) \<and>
         aggregate_csv flt (contents f) = Inl e)) \<or>
     ((\<forall>f \<in> set jfs. contents f \<noteq> None) \<and>
      (\<forall>f \<in> set cfs. \<exists>r. aggregate_csv flt (contents f) = Inr r) \<and>
      e = AttributeError \<and> (\<exists>s v. last_json jfs s = Some v \<and> \<not> is_dict v))"
  (is "?lhs \<longleftrightarrow> ?json \<or> ?csv \<or> ?merge")
proof (cases "load_json_files jfs [] st")
  case (Inl e')
  then have "e' = JSONDecodeError" and none: "\<exists>f \<in> set jfs. contents f = None"
    by (simp_all add: load_json_files_Inl_iff)
  moreover have "parse_refine_log flag flt jfs cfs st = Inl e'"
    using Inl by (simp add: parse_refine_log_def)
  ultimately show ?thesis using none by auto
next
  case (Inr r)
  then obtain jd st1 where j: "load_json_files jfs [] st = Inr (jd, st1)"
    by (cases r) auto
  have all: "\<forall>f \<in> set jfs. contents f \<noteq> None"
    using load_json_files_contents [OF j] .
  then have nj: "\<not> ?json" by auto
  show ?thesis
  proof (cases "load_csv_files flt cfs [] st1")
    case (Inl e')
    then have "?lhs \<longleftrightarrow> e' = e"
      using parse_refine_log_csv_Inl [OF j Inl] by auto
    moreover have "\<not> (\<forall>f \<in> set cfs. \<exists>r. aggregate_csv flt (contents f) = Inr r)"
      using Inl load_csv_files_all_Inr [of cfs flt "[]" st1] by auto
    moreover have "(\<exists>pre f post. cfs = pre @ f # post \<and>
         (\<forall>g \<in> set pre. \<exists>r. aggregate_csv flt (contents g) = Inr r) \<and>
         aggregate_csv flt (contents f) = Inl e) \<longleftrightarrow> e' = e"
      using load_csv_files_Inl_iff [of flt cfs "[]" st1 e] unfolding Inl sum.inject by blast
    then have "?csv \<longleftrightarrow> e' = e" using all by blast
    ultimately show ?thesis using nj by blast
  next
    case (Inr r')
    then obtain cd st2 where c: "load_csv_files flt cfs [] st1 = Inr (cd, st2)"
      by (cases r') auto
    have allc: "\<forall>f \<in> set cfs. \<exists>r. aggregate_csv flt (contents f) = Inr r"
      using load_csv_files_all_aggregate [OF c] by blast
    have "\<not> ?csv"
      using c load_csv_files_Inl_iff [of flt cfs "[]" st1 e] by auto
    moreover have "?lhs \<longleftrightarrow> e = AttributeError \<and> (\<exists>s v. last_json jfs s = Some v \<and> \<not> is_dict v)"
      by (rule parse_refine_log_merge_Inl_iff [OF j c])
    ultimately show ?thesis using nj all allc by blast
  qed
qed


subsection \<open>The theorems at concrete inputs\<close>

theorem parse_refine_log_keys_witness:
  "fst ` set s1_data = s_name ` set [json_s1] \<union> s_name ` {f \<in> set [csv_s1]. contents f \<noteq> []} \<and>
   dict_wf s1_data"
  by (rule parse_refine_log_keys [OF s1_run])

theorem empty_csv_file_no_effect_witness:
  "contents csv_empty = [] \<and>
   load_csv_files decimal_float [csv_empty, csv_s1] [] empty_module =
   load_csv_files decimal_float [csv_s1] [] empty_module"
proof -
  have e: "contents csv_empty = []" by (simp add: csv_empty_def)
  show ?thesis using e empty_csv_file_no_effect [OF e] by blast
qed

theorem label_counts_total_witness:
  "aggregate_csv decimal_float [scenario_row1, scenario_row2] = Inr (Some scenario_record) \<and>
   (\<exists>cs cp. map_of scenario_record ''strand_counts'' = Some (counter_val cs) \<and>
      map_of scenario_record ''primer_counts'' = Some (counter_val cp) \<and>
      sum_list (map snd cs) = int (length [scenario_row1, scenario_row2]) \<and>
      sum_list (map snd cp) = int (length [scenario_row1, scenario_row2]) \<and>
      dict_wf cs \<and> dict_wf cp)"
  using scenario_aggregate label_counts_total [OF scenario_aggregate] by blast

theorem finalize_std_nonneg_witness:
  "\<exists>d. finalize_csv rounded_acc = Inr (Some d) \<and>
     map_of d (''std_'' @ ''fivelen'') = Some (VFloat (Fin 0)) \<and>
     (\<exists>sd. map_of d (''std_'' @ ''fivelen'') = Some (VFloat (Fin sd)) \<and> 0 \<le> sd)"
proof -
  obtain d where d: "finalize_csv rounded_acc = Inr (Some d)"
    and z: "map_of d (''std_'' @ ''fivelen'') = Some (VFloat (Fin 0))"
    using rounded_acc_finalize by blast
  have c: "''fivelen'' \<in> set refine_columns" by (simp add: refine_columns_def)
  show ?thesis using d z finalize_std_nonneg [OF d c] by blast
qed

theorem process_row_acc_inv_witness:
  "acc_inv init_acc \<and>
   process_row decimal_float init_acc scenario_row1 =
     Inr (add_row init_acc ([10, 5, 20, 500], CStr ''+'', CStr ''p1'')) \<and>
   acc_inv (add_row init_acc ([10, 5, 20, 500], CStr ''+'', CStr ''p1''))"
proof -
  have p: "process_row decimal_float init_acc scenario_row1 =
             Inr (add_row init_acc ([10, 5, 20, 500], CStr ''+'', CStr ''p1''))"
    by (simp add: process_row_eq scenario_parse_row1)
  show ?thesis using acc_inv_init p process_row_acc_inv [OF acc_inv_init p] by blast
qed

theorem finalize_csv_safe_witness:
  "acc_inv (add_row init_acc ([10, 5, 20, 500], CStr ''+'', CStr ''p1'')) \<and>
   (\<exists>r. finalize_csv (add_row init_acc ([10, 5, 20, 500], CStr ''+'', CStr ''p1'')) = Inr r)"
proof -
  have i: "acc_inv (add_row init_acc ([10, 5, 20, 500], CStr ''+'', CStr ''p1''))"
    by (rule add_row_acc_inv [OF acc_inv_init]) simp
  show ?thesis using i finalize_csv_safe [OF i] by blast
qed


theorem sample_sets_warning_witness:
  "\<exists>msgs. error_log s23_state = error_log empty_module @ msgs \<and> length msgs \<le> 1 \<and>
     (False \<longrightarrow> msgs = [FnAsSampleNameUnsupported]) \<and>
     (\<not> False \<longrightarrow> (\<forall>m \<in> set msgs. \<exists>a b. m = DifferentSampleSets a b) \<and>
        (msgs = [] \<longleftrightarrow> s_name ` set [json_s2] = s_name ` {f \<in> set [csv_s3]. contents f \<noteq> []}))"
  by (rule sample_sets_warning [OF s23_run])

theorem merged_record_provenance_witness:
  "merge_samples merge_jd merge_cd (sample_union merge_jd merge_cd) [] =
     Inr [(''b'', VDict []),
          (''a'', VDict [(VStr ''num_reads_fl'', VInt 4), (VStr ''mean_fivelen'', VFloat (Fin 2))])] \<and>
   ''a'' \<in> fst ` set merge_jd \<union> fst ` set merge_cd \<and>
   (\<exists>j m. (case map_of merge_jd ''a'' of Some v \<Rightarrow> v | None \<Rightarrow> VDict []) = VDict j \<and>
      map_of [(''b'', VDict []),
              (''a'', VDict [(VStr ''num_reads_fl'', VInt 4), (VStr ''mean_fivelen'', VFloat (Fin 2))])]
        ''a'' = Some (VDict m) \<and>
      map_of m = map_of j ++ map_of (str_dict (case map_of merge_cd ''a'' of Some r \<Rightarrow> r | None \<Rightarrow> [])))"
proof -
  have m: "merge_samples merge_jd merge_cd (sample_union merge_jd merge_cd) [] =
     Inr [(''b'', VDict []),
          (''a'', VDict [(VStr ''num_reads_fl'', VInt 4), (VStr ''mean_fivelen'', VFloat (Fin 2))])]"
    by (simp add: merge_jd_def merge_cd_def sample_union_def sample_record_def str_dict_def)
  have w: "\<forall>r \<in> snd ` set merge_cd. dict_wf r" by (simp add: merge_cd_def dict_wf_def)
  have s: "''a'' \<in> fst ` set merge_jd \<union> fst ` set merge_cd" by (simp add: merge_jd_def)
  show ?thesis using m w s merged_record_provenance [OF m w s] by blast
qed

theorem merge_samples_order_independent_witness:
  "set [''a'', ''b''] = set [''b'', ''a''] \<and>
   map_sum id map_of (merge_samples merge_jd merge_cd [''a'', ''b''] []) =
   map_sum id map_of (merge_samples merge_jd merge_cd [''b'', ''a''] [])"
proof -
  have h: "set [''a'', ''b''] = set [''b'', ''a'']" by auto
  show ?thesis using h merge_samples_order_independent [OF h] by blast
qed

theorem malformed_csv_aborts_run_witness:
  "csv_bad \<in> set [csv_s1, csv_bad] \<and>
   bad_row \<in> set (contents csv_bad) \<and> parse_row decimal_float bad_row = Inl (ValueError ''x'') \<and>
   (\<exists>e. parse_refine_log False decimal_float [json_s1] [csv_s1, csv_bad] empty_module = Inl e)"
proof -
  have j: "\<forall>f \<in> set [json_s1]. contents f \<noteq> None" by (simp add: json_s1_def)
  have f: "csv_bad \<in> set [csv_s1, csv_bad]" by simp
  have r: "bad_row \<in> set (contents csv_bad)" by (simp add: csv_bad_def)
  show ?thesis
    using j f r bad_row_parse malformed_csv_aborts_run [OF j f r bad_row_parse] by blast
qed

theorem table_columns_match_record_witness:
  "aggregate_csv decimal_float [scenario_row1, scenario_row2] = Inr (Some scenario_record) \<and>
   map fst scenario_record = map fst table_headers @ [''strand_counts'', ''primer_counts'']"
  using scenario_aggregate table_columns_match_record [OF scenario_aggregate] by blast

theorem general_stats_from_json_witness:
  "parse_refine_log False decimal_float [json_s1] [csv_s1] empty_module = Inr (s1_data, s1_state) \<and>
   map_of s1_data ''s1'' = Some (VDict ((VStr ''num_reads_fl'', VInt 100) # str_dict scenario_record)) \<and>
   ''num_reads_fl'' \<in> set (map fst general_stats_headers) \<and>
   map_of ((VStr ''num_reads_fl'', VInt 100) # str_dict scenario_record) (VStr ''num_reads_fl'') =
     (case last_json [json_s1] ''s1'' of Some (VDict j) \<Rightarrow> map_of j (VStr ''num_reads_fl'') | _ \<Rightarrow> None)"
proof -
  have s: "map_of s1_data ''s1'' = Some (VDict ((VStr ''num_reads_fl'', VInt 100) # str_dict scenario_record))"
    by (simp add: s1_data_def)
  have k: "''num_reads_fl'' \<in> set (map fst general_stats_headers)"
    by (simp add: general_stats_keys)
  show ?thesis using s1_run s k general_stats_from_json [OF s1_run s k] by blast
qed

theorem parse_refine_log_saves_data_witness:
  "parse_refine_log False decimal_float [json_s1] [csv_s1] empty_module = Inr (s1_data, s1_state) \<and>
   saved_data s1_state = saved_data empty_module @ [(''multiqc_isoseq_refine_report'', s1_data)]"
  using s1_run parse_refine_log_saves_data [OF s1_run] by blast

theorem csv_only_record_roundtrip_witness:
  "''s3'' \<notin> s_name ` set [json_s2] \<and>
   last_csv [csv_s3] ''s3'' = Some [scenario_row1, scenario_row2] \<and>
   (\<exists>d v. aggregate_csv decimal_float [scenario_row1, scenario_row2] = Inr (Some d) \<and>
      map_of s23_data ''s3'' = Some v \<and> decode_record v = Some d)"
proof -
  have n: "''s3'' \<notin> s_name ` set [json_s2]" by (simp add: json_s2_def)
  have l: "last_csv [csv_s3] ''s3'' = Some [scenario_row1, scenario_row2]"
    by (simp add: last_csv_def csv_s3_def)
  show ?thesis using n l csv_only_record_roundtrip [OF s23_run n l] by blast
qed

theorem parse_refine_log_error_iff_witness:
  "parse_refine_log False decimal_float [json_s1] [csv_s1, csv_bad] empty_module = Inl (ValueError ''x'')"
proof -
  have j: "\<forall>f \<in> set [json_s1]. contents f \<noteq> None" by (simp add: json_s1_def)
  have c: "\<exists>pre f post. [csv_s1, csv_bad] = pre @ f # post \<and>
             (\<forall>g \<in> set pre. \<exists>r. aggregate_csv decimal_float (contents g) = Inr r) \<and>
             aggregate_csv decimal_float (contents f) = Inl (ValueError ''x'')"
    by (intro exI [of _ "[csv_s1]"] exI [of _ csv_bad] exI [of _ "[]"])
       (simp add: csv_s1_def csv_bad_def scenario_aggregate bad_aggregate)
  show ?thesis
    using parse_refine_log_error_iff [of False decimal_float "[json_s1]" "[csv_s1, csv_bad]"
            empty_module "ValueError ''x''"] j c
    by blast
qed


end
